theory Spec2Isabelle
  imports Complex_Main "HOL-Library.Sublist"
begin

section \<open>The Kamailio statistics collector\<close>

text \<open>
  A shallow embedding of \<^verbatim>\<open>statscollector.go\<close>: the transport selection and the RPC
  round trip of \<^verbatim>\<open>execRPCCommand\<close>, the two normalizers \<^verbatim>\<open>fetchPKGMemStats\<close> and
  \<^verbatim>\<open>fetchStats\<close>, and the translators that turn their results into Prometheus samples.
  Go strings are byte sequences and are modelled as \<^typ>\<open>string\<close>; Go's \<^verbatim>\<open>int\<close> is
  modelled as \<^typ>\<open>int\<close>; a metric channel is modelled by the list of metrics a function
  sends to it, in the order sent.
\<close>

subsection \<open>Functions of the Go standard library used by the collector\<close>

definition HasPrefix :: "string \<Rightarrow> string \<Rightarrow> bool" where
  \<comment> \<open>\<^verbatim>\<open>len(s) >= len(prefix) && s[:len(prefix)] == prefix\<close>\<close>
  "HasPrefix s pre = (length pre \<le> length s \<and> take (length pre) s = pre)"

definition HasSuffix :: "string \<Rightarrow> string \<Rightarrow> bool" where
  \<comment> \<open>\<^verbatim>\<open>len(s) >= len(suffix) && s[len(s)-len(suffix):] == suffix\<close>\<close>
  "HasSuffix s suf = (length suf \<le> length s \<and> drop (length s - length suf) s = suf)"

definition TrimPrefix :: "string \<Rightarrow> string \<Rightarrow> string" where
  "TrimPrefix s pre = (if HasPrefix s pre then drop (length pre) s else s)"

definition lowerByte :: "char \<Rightarrow> char" where
  "lowerByte c =
     (let n = (of_char c :: nat) in if 65 \<le> n \<and> n \<le> 90 then char_of (n + 32) else c)"

text \<open>
  \<^verbatim>\<open>strings.ToLower\<close> has two paths. A string of ASCII bytes only is lower-cased byte
  by byte: the letters A to Z are mapped to a to z and every other byte is kept. Any
  other string is mapped rune by rune with the case tables of Unicode, which also
  replaces invalid UTF-8; that mapping, \<^verbatim>\<open>Map(unicode.ToLower, s)\<close>, is the parameter
  \<open>unicodeLower\<close>.
\<close>

definition ToLower :: "(string \<Rightarrow> string) \<Rightarrow> string \<Rightarrow> string" where
  "ToLower unicodeLower s =
     (if list_all (\<lambda>c. (of_char c :: nat) < 128) s then map lowerByte s else unicodeLower s)"

definition continuation :: "char \<Rightarrow> bool" where
  \<comment> \<open>a continuation byte of UTF-8, \<^verbatim>\<open>0x80\<close> to \<^verbatim>\<open>0xBF\<close>\<close>
  "continuation c = (128 \<le> (of_char c :: nat) \<and> (of_char c :: nat) \<le> 191)"

fun ValidString :: "string \<Rightarrow> bool" where
  \<comment> \<open>\<^verbatim>\<open>utf8.ValidString\<close>: the bytes are a sequence of well-formed UTF-8 encodings, with
      no overlong form, no surrogate and nothing beyond \<^verbatim>\<open>U+10FFFF\<close>\<close>
  "ValidString [] = True"
| "ValidString (c # cs) =
     (let b = (of_char c :: nat) in
      if b < 128 then ValidString cs
      else if 194 \<le> b \<and> b \<le> 223 then
        (case cs of c1 # r \<Rightarrow> continuation c1 \<and> ValidString r | _ \<Rightarrow> False)
      else if 224 \<le> b \<and> b \<le> 239 then
        (case cs of
           c1 # c2 # r \<Rightarrow>
             (let b1 = (of_char c1 :: nat) in
              (if b = 224 then 160 \<le> b1 \<and> b1 \<le> 191
               else if b = 237 then 128 \<le> b1 \<and> b1 \<le> 159
               else continuation c1)
              \<and> continuation c2 \<and> ValidString r)
         | _ \<Rightarrow> False)
      else if 240 \<le> b \<and> b \<le> 244 then
        (case cs of
           c1 # c2 # c3 # r \<Rightarrow>
             (let b1 = (of_char c1 :: nat) in
              (if b = 240 then 144 \<le> b1 \<and> b1 \<le> 191
               else if b = 244 then 128 \<le> b1 \<and> b1 \<le> 143
               else continuation c1)
              \<and> continuation c2 \<and> continuation c3 \<and> ValidString r)
         | _ \<Rightarrow> False)
      else False)"

fun decimalDigits :: "nat \<Rightarrow> string" where
  "decimalDigits n =
     (if n < 10 then [''0123456789'' ! n]
      else decimalDigits (n div 10) @ [''0123456789'' ! (n mod 10)])"

declare decimalDigits.simps [simp del]

definition Itoa :: "int \<Rightarrow> string" where
  \<comment> \<open>\<^verbatim>\<open>strconv.Itoa\<close>, also the rendering of \<^verbatim>\<open>%d\<close> by \<^verbatim>\<open>fmt.Sprintf\<close>\<close>
  "Itoa i = (if i < 0 then CHR ''-'' # decimalDigits (nat (- i)) else decimalDigits (nat i))"

subsection \<open>Records returned by the RPC library\<close>

datatype error = Error string

text \<open>
  Modelled from the spec: the record type of the binrpc library, which is not part of this
  repository. A record carries a declared wire type; a struct record exposes an ordered
  sequence of (key, value) items, in which a key may occur more than once. Each accessor
  returns Go's pair of a value and an error, the value being the zero value of its type
  when the record has another wire type.
\<close>

datatype Record =
    IntValue int
  | StringValue string
  | StructValue "(string \<times> Record) list"
  | OtherValue

fun Int_of :: "Record \<Rightarrow> int \<times> error option" where
  "Int_of (IntValue i) = (i, None)"
| "Int_of _ = (0, Some (Error ''type error: expected type int''))"

fun String_of :: "Record \<Rightarrow> string \<times> error option" where
  "String_of (StringValue s) = (s, None)"
| "String_of _ = ('''', Some (Error ''type error: expected type string''))"

fun StructItems :: "Record \<Rightarrow> (string \<times> Record) list \<times> error option" where
  "StructItems (StructValue items) = (items, None)"
| "StructItems _ = ([], Some (Error ''type error: expected type struct''))"

subsection \<open>The collector and its connection to Kamailio\<close>

record StatsCollector =
  socketPath :: string
  kamailioHost :: string
  kamailioPort :: int

text \<open>
  The network is a parameter of the model: \<open>Dial\<close> answers a connection attempt to a
  network kind and an address (\<open>None\<close>: the connection is established), \<open>WritePacket\<close>
  answers the sending of a command with its arguments by the cookie of the request, and
  \<open>ReadPacket\<close> answers the reading of the reply to that cookie by the decoded records.
  What \<^verbatim>\<open>execRPCCommand\<close> does on the network is recorded as a list of events.
\<close>

record network =
  Dial :: "string \<Rightarrow> string \<Rightarrow> error option"
  WritePacket :: "string list \<Rightarrow> error + string"
  ReadPacket :: "string \<Rightarrow> error + Record list"

datatype event =
    Dialed string string
  | Written "string list"
  | ReadBack string
  | Closed

definition execRPCCommand ::
  "network \<Rightarrow> StatsCollector \<Rightarrow> string \<Rightarrow> string \<Rightarrow> (error + Record list) \<times> event list" where
  "execRPCCommand nw c command param =
     (let (kind, address) =
            (if kamailioHost c = '''' then (''unix'', socketPath c)
             else (''tcp'', kamailioHost c @ '':'' @ Itoa (kamailioPort c)))
      in case Dial nw kind address of
           Some err \<Rightarrow> (Inl err, [Dialed kind address])
         | None \<Rightarrow>
             (let args = (if param = '''' then [command] else [command, param])
              in case WritePacket nw args of
                   Inl err \<Rightarrow> (Inl err, [Dialed kind address, Written args, Closed])
                 | Inr cookie \<Rightarrow>
                     (case ReadPacket nw cookie of
                        Inl err \<Rightarrow>
                          (Inl err, [Dialed kind address, Written args, ReadBack cookie, Closed])
                      | Inr records \<Rightarrow>
                          (Inr records,
                           [Dialed kind address, Written args, ReadBack cookie, Closed]))))"

subsection \<open>The memory record normalizer\<close>

record MemoryEntry =
  Entry :: string
  Pid :: string
  Rank :: string
  Used :: string
  Free :: string
  RealUsed :: string
  TotalSize :: string
  TotalFrags :: string

definition emptyEntry :: MemoryEntry where
  \<comment> \<open>\<^verbatim>\<open>MemoryEntry{}\<close>: every field is the empty string\<close>
  "emptyEntry =
     \<lparr>Entry = '''', Pid = '''', Rank = '''', Used = '''', Free = '''', RealUsed = '''',
      TotalSize = '''', TotalFrags = ''''\<rparr>"

definition storeField :: "MemoryEntry \<Rightarrow> string \<Rightarrow> string \<Rightarrow> MemoryEntry" where
  \<comment> \<open>the \<^verbatim>\<open>switch item.Key\<close>, which has no default case\<close>
  "storeField m key text =
     (if key = ''entry'' then m\<lparr>Entry := text\<rparr>
      else if key = ''pid'' then m\<lparr>Pid := text\<rparr>
      else if key = ''rank'' then m\<lparr>Rank := text\<rparr>
      else if key = ''used'' then m\<lparr>Used := text\<rparr>
      else if key = ''free'' then m\<lparr>Free := text\<rparr>
      else if key = ''real_used'' then m\<lparr>RealUsed := text\<rparr>
      else if key = ''total_size'' then m\<lparr>TotalSize := text\<rparr>
      else if key = ''total_frags'' then m\<lparr>TotalFrags := text\<rparr>
      else m)"

fun readItems :: "MemoryEntry \<Rightarrow> (string \<times> Record) list \<Rightarrow> MemoryEntry" where
  \<comment> \<open>the loop over the items of one record; a failed \<^verbatim>\<open>Int()\<close> is the \<^verbatim>\<open>continue\<close>\<close>
  "readItems m [] = m"
| "readItems m ((key, item) # items) =
     (case Int_of item of
        (intRes, None) \<Rightarrow> readItems (storeField m key (Itoa intRes)) items
      | (_, Some err) \<Rightarrow> readItems m items)"

definition fetchPKGMemStats :: "network \<Rightarrow> StatsCollector \<Rightarrow> error + MemoryEntry list" where
  "fetchPKGMemStats nw c =
     (case fst (execRPCCommand nw c ''pkg.stats'' '''') of
        Inl err \<Rightarrow> Inl err
      | Inr records \<Rightarrow>
          Inr (map (\<lambda>record. readItems emptyEntry (fst (StructItems record))) records))"

subsection \<open>The flat stat map builder\<close>

text \<open>
  Indexing a Go slice out of range panics; a panic of \<^verbatim>\<open>fetchStats\<close> is a result of
  its own, apart from the two results the function can return.
\<close>

datatype 'a outcome = Returns 'a | Panics

definition fetchStats ::
  "network \<Rightarrow> StatsCollector \<Rightarrow> (error + (string \<rightharpoonup> string)) outcome" where
  "fetchStats nw c =
     (case fst (execRPCCommand nw c ''stats.fetch'' ''all'') of
        Inl err \<Rightarrow> Returns (Inl err)
      | Inr records \<Rightarrow>
          (case records of
             [] \<Rightarrow> Panics
           | record # _ \<Rightarrow>
               Returns (Inr (foldl (\<lambda>result (key, item). result(key \<mapsto> fst (String_of item)))
                                   Map.empty (fst (StructItems record))))))"

subsection \<open>Metric descriptors and samples\<close>

datatype ValueType = CounterValue | GaugeValue

text \<open>
  Modelled from the spec: the descriptors and constant metrics of the Prometheus client
  library, which is not part of this repository. The spec has the emission of a sample
  fail closed, the sample being skipped, when the sample does not fit its descriptor. In
  the library a descriptor records an error when its metric name is not valid, when a
  constant or variable label name is not valid, when a constant label value is not valid
  UTF-8, or when a label name occurs twice among the constant and variable labels;
  \<^verbatim>\<open>NewConstMetric\<close> returns that error, and an error of its own when the label values
  are not as many as the variable labels or are not valid UTF-8.
\<close>

definition nameByte :: "bool \<Rightarrow> nat \<Rightarrow> char \<Rightarrow> bool" where
  \<comment> \<open>the byte \<open>c\<close> at index \<open>i\<close> may stand in a name: a letter, an underscore, a colon
      where \<open>colon\<close> allows it, or a digit after the first byte\<close>
  "nameByte colon i c =
     (let b = (of_char c :: nat) in
      (97 \<le> b \<and> b \<le> 122) \<or> (65 \<le> b \<and> b \<le> 90) \<or> b = 95 \<or> (colon \<and> b = 58)
      \<or> (48 \<le> b \<and> b \<le> 57 \<and> 0 < i))"

fun nameBytes :: "bool \<Rightarrow> nat \<Rightarrow> string \<Rightarrow> bool" where
  "nameBytes colon i [] = True"
| "nameBytes colon i (c # cs) = (nameByte colon i c \<and> nameBytes colon (Suc i) cs)"

definition IsValidMetricName :: "string \<Rightarrow> bool" where
  \<comment> \<open>Modelled from the spec: the metric names of Prometheus,
      \<^verbatim>\<open>[a-zA-Z_:][a-zA-Z0-9_:]*\<close>\<close>
  "IsValidMetricName n = (n \<noteq> [] \<and> nameBytes True 0 n)"

definition checkLabelName :: "string \<Rightarrow> bool" where
  \<comment> \<open>Modelled from the spec: the label names of Prometheus, \<^verbatim>\<open>[a-zA-Z_][a-zA-Z0-9_]*\<close>,
      the reserved names, which begin with two underscores, excepted\<close>
  "checkLabelName l = (l \<noteq> [] \<and> nameBytes False 0 l \<and> \<not> HasPrefix l ''__'')"

text \<open>
  \<^verbatim>\<open>prometheus.Labels\<close> is a Go map from label names to label values; it is given by
  its entries, each name once.
\<close>

type_synonym Labels = "(string \<times> string) list"

record Desc =
  fqName :: string
  helpText :: string
  variableLabels :: "string list"
  constLabelPairs :: Labels
  descErr :: "error option"

definition NewDesc :: "string \<Rightarrow> string \<Rightarrow> string list \<Rightarrow> Labels \<Rightarrow> Desc" where
  \<comment> \<open>Modelled from the spec: \<^verbatim>\<open>prometheus.NewDesc\<close>. The checks are made in this order
      and the first that fails ends the construction with its error, before the constant
      labels are stored. (The library stores them sorted by name.)\<close>
  "NewDesc name text labels constLabels =
     (let d = \<lparr>fqName = name, helpText = text, variableLabels = labels, constLabelPairs = [],
                descErr = None\<rparr>
      in if \<not> IsValidMetricName name
         then d\<lparr>descErr := Some (Error ''not a valid metric name'')\<rparr>
         else if \<not> list_all checkLabelName (map fst constLabels)
         then d\<lparr>descErr := Some (Error ''not a valid label name'')\<rparr>
         else if \<not> list_all ValidString (name # map snd constLabels)
         then d\<lparr>descErr := Some (Error ''label value is not valid UTF-8'')\<rparr>
         else if \<not> list_all checkLabelName labels
         then d\<lparr>descErr := Some (Error ''not a valid label name'')\<rparr>
         else if \<not> distinct (map fst constLabels @ labels)
         then d\<lparr>descErr := Some (Error ''duplicate label names'')\<rparr>
         else d\<lparr>constLabelPairs := constLabels\<rparr>)"

record 'v Metric =
  desc :: Desc
  valType :: ValueType
  val :: 'v
  labelValues :: "string list"

definition NewConstMetric ::
  "Desc \<Rightarrow> ValueType \<Rightarrow> 'v \<Rightarrow> string list \<Rightarrow> error + 'v Metric" where
  \<comment> \<open>Modelled from the spec: \<^verbatim>\<open>prometheus.NewConstMetric\<close>. The error of the descriptor
      comes first, then the count of the label values, then their encoding.\<close>
  "NewConstMetric d t v lvs =
     (case descErr d of
        Some e \<Rightarrow> Inl e
      | None \<Rightarrow>
          if length lvs \<noteq> length (variableLabels d)
          then Inl (Error ''inconsistent label cardinality'')
          else if \<not> list_all ValidString lvs
          then Inl (Error ''label value is not valid UTF-8'')
          else Inr \<lparr>desc = d, valType = t, val = v, labelValues = lvs\<rparr>)"

text \<open>
  The descriptors that \<^verbatim>\<open>initMetrics\<close> stores in global variables; \<open>cl\<close> is the
  constant label set it is called with.
\<close>

definition core_request_total :: "Labels \<Rightarrow> Desc" where
  "core_request_total cl = NewDesc ''kamailio_core_request_total'' ''Request counters'' [''method''] cl"

definition core_rcv_request_total :: "Labels \<Rightarrow> Desc" where
  "core_rcv_request_total cl = NewDesc ''kamailio_core_rcv_request_total'' ''Received requests by method'' [''method''] cl"

definition core_reply_total :: "Labels \<Rightarrow> Desc" where
  "core_reply_total cl = NewDesc ''kamailio_core_reply_total'' ''Reply counters'' [''type''] cl"

definition core_rcv_reply_total :: "Labels \<Rightarrow> Desc" where
  "core_rcv_reply_total cl = NewDesc ''kamailio_core_rcv_reply_total'' ''Received replies by code'' [''code''] cl"

definition shmem_bytes :: "Labels \<Rightarrow> Desc" where
  "shmem_bytes cl = NewDesc ''kamailio_shm_bytes'' ''Shared memory sizes'' [''type''] cl"

definition shmem_fragments :: "Labels \<Rightarrow> Desc" where
  "shmem_fragments cl = NewDesc ''kamailio_shm_fragments'' ''Shared memory fragment count'' [] cl"

definition pkgmem_bytes :: "Labels \<Rightarrow> Desc" where
  "pkgmem_bytes cl = NewDesc ''kamailio_pkg_bytes'' ''Private memory'' [''index'', ''pid'', ''rank'', ''type''] cl"

definition dns_failed :: "Labels \<Rightarrow> Desc" where
  "dns_failed cl = NewDesc ''kamailio_dns_failed_request_total'' ''Failed dns requests'' [] cl"

definition bad_uri :: "Labels \<Rightarrow> Desc" where
  "bad_uri cl = NewDesc ''kamailio_bad_uri_total'' ''Messages with bad uri'' [] cl"

definition bad_msg_hdr :: "Labels \<Rightarrow> Desc" where
  "bad_msg_hdr cl = NewDesc ''kamailio_bad_msg_hdr'' ''Messages with bad message header'' [] cl"

definition sl_reply_total :: "Labels \<Rightarrow> Desc" where
  "sl_reply_total cl = NewDesc ''kamailio_sl_reply_total'' ''Stateless replies by code'' [''code''] cl"

definition sl_type_total :: "Labels \<Rightarrow> Desc" where
  "sl_type_total cl = NewDesc ''kamailio_sl_type_total'' ''Stateless replies by type'' [''type''] cl"

definition tcp_total :: "Labels \<Rightarrow> Desc" where
  "tcp_total cl = NewDesc ''kamailio_tcp_total'' ''TCP connection counters'' [''type''] cl"

definition tcp_connections :: "Labels \<Rightarrow> Desc" where
  "tcp_connections cl = NewDesc ''kamailio_tcp_connections'' ''Opened TCP connections'' [] cl"

definition tcp_writequeue :: "Labels \<Rightarrow> Desc" where
  "tcp_writequeue cl = NewDesc ''kamailio_tcp_writequeue'' ''TCP write queue size'' [] cl"

definition tmx_code_total :: "Labels \<Rightarrow> Desc" where
  "tmx_code_total cl = NewDesc ''kamailio_tmx_code_total'' ''Completed Transaction counters by code'' [''code''] cl"

definition tmx_type_total :: "Labels \<Rightarrow> Desc" where
  "tmx_type_total cl = NewDesc ''kamailio_tmx_type_total'' ''Completed Transaction counters by type'' [''type''] cl"

definition tmx :: "Labels \<Rightarrow> Desc" where
  "tmx cl = NewDesc ''kamailio_tmx'' ''Ongoing Transactions'' [''type''] cl"

definition tmx_rpl_total :: "Labels \<Rightarrow> Desc" where
  "tmx_rpl_total cl = NewDesc ''kamailio_tmx_rpl_total'' ''Tmx reply counters'' [''type''] cl"

definition dialog :: "Labels \<Rightarrow> Desc" where
  "dialog cl = NewDesc ''kamailio_dialog'' ''Ongoing Dialogs'' [''type''] cl"

subsection \<open>The translators\<close>

text \<open>
  \<^verbatim>\<open>strconv.ParseFloat(s, 64)\<close> is a parameter \<open>ParseFloat\<close> of the translators:
  \<open>None\<close> stands for a returned error, \<open>Some v\<close> for the float \<open>v\<close> returned
  without one. The type \<open>'v\<close> of floats is left open.
\<close>

definition convertPKGStatToMetric ::
  "(string \<Rightarrow> 'v option) \<Rightarrow> Labels \<Rightarrow> string \<Rightarrow> string list \<Rightarrow> 'v Metric list" where
  "convertPKGStatToMetric ParseFloat cl text labels =
     (case ParseFloat text of
        Some valueFloat \<Rightarrow>
          (case NewConstMetric (pkgmem_bytes cl) GaugeValue valueFloat labels of
             Inr metric \<Rightarrow> [metric]
           | Inl err \<Rightarrow> [])
      | None \<Rightarrow> [])"

fun producePKGMemMetrics ::
  "(string \<Rightarrow> 'v option) \<Rightarrow> Labels \<Rightarrow> MemoryEntry list \<Rightarrow> 'v Metric list" where
  "producePKGMemMetrics ParseFloat cl [] = []"
| "producePKGMemMetrics ParseFloat cl (e # memStatMap) =
     (let labelValues = [Entry e, Pid e, Rank e];
          labelUsed = labelValues @ [''used''];
          labelFree = labelValues @ [''free''];
          labelRealUsed = labelValues @ [''real_used''];
          labelTotal = labelValues @ [''total''];
          labelFrags = labelValues @ [''total_frags'']
      in convertPKGStatToMetric ParseFloat cl (Used e) labelUsed
       @ convertPKGStatToMetric ParseFloat cl (Free e) labelFree
       @ convertPKGStatToMetric ParseFloat cl (RealUsed e) labelRealUsed
       @ convertPKGStatToMetric ParseFloat cl (TotalSize e) labelTotal
       @ convertPKGStatToMetric ParseFloat cl (TotalFrags e) labelFrags
       @ producePKGMemMetrics ParseFloat cl memStatMap)"

definition convertStatToMetric ::
  "(string \<Rightarrow> 'v option) \<Rightarrow> (string \<rightharpoonup> string) \<Rightarrow> string \<Rightarrow> string \<Rightarrow> Desc \<Rightarrow> ValueType
     \<Rightarrow> 'v Metric list" where
  "convertStatToMetric ParseFloat completeStatMap statKey optionalLabelValue metricDescription
       valueType =
     (let labelValues = (if optionalLabelValue \<noteq> '''' then [optionalLabelValue] else [])
      in case completeStatMap statKey of
           Some valueAsString \<Rightarrow>
             (case ParseFloat valueAsString of
                Some v \<Rightarrow>
                  (case NewConstMetric metricDescription valueType v labelValues of
                     Inr metric \<Rightarrow> [metric]
                   | Inl err \<Rightarrow> [])
              | None \<Rightarrow> [])
         | None \<Rightarrow> [])"

text \<open>
  The static catalog: one row for each call of \<^verbatim>\<open>convertStatToMetric\<close> in
  \<^verbatim>\<open>produceMetrics\<close>, in the order of the calls, giving the stat key, the optional label
  value, the descriptor and the value type.
\<close>

definition statCatalog ::
  "Labels \<Rightarrow> (string \<times> string \<times> Desc \<times> ValueType) list" where
  "statCatalog cl = [
     (''core.drop_requests'', ''drop'', core_request_total cl, CounterValue),
     (''core.err_requests'', ''err'', core_request_total cl, CounterValue),
     (''core.fwd_requests'', ''fwd'', core_request_total cl, CounterValue),
     (''core.rcv_requests'', ''rcv'', core_request_total cl, CounterValue),
     (''core.rcv_requests_ack'', ''ack'', core_rcv_request_total cl, CounterValue),
     (''core.rcv_requests_bye'', ''bye'', core_rcv_request_total cl, CounterValue),
     (''core.rcv_requests_cancel'', ''cancel'', core_rcv_request_total cl, CounterValue),
     (''core.rcv_requests_info'', ''info'', core_rcv_request_total cl, CounterValue),
     (''core.rcv_requests_invite'', ''invite'', core_rcv_request_total cl, CounterValue),
     (''core.rcv_requests_message'', ''message'', core_rcv_request_total cl, CounterValue),
     (''core.rcv_requests_notify'', ''notify'', core_rcv_request_total cl, CounterValue),
     (''core.rcv_requests_options'', ''options'', core_rcv_request_total cl, CounterValue),
     (''core.rcv_requests_prack'', ''prack'', core_rcv_request_total cl, CounterValue),
     (''core.rcv_requests_publish'', ''publish'', core_rcv_request_total cl, CounterValue),
     (''core.rcv_requests_refer'', ''refer'', core_rcv_request_total cl, CounterValue),
     (''core.rcv_requests_register'', ''register'', core_rcv_request_total cl, CounterValue),
     (''core.rcv_requests_subscribe'', ''subscribe'', core_rcv_request_total cl, CounterValue),
     (''core.rcv_requests_update'', ''update'', core_rcv_request_total cl, CounterValue),
     (''core.unsupported_methods'', ''unsupported'', core_rcv_request_total cl, CounterValue),
     (''core.drop_replies'', ''drop'', core_reply_total cl, CounterValue),
     (''core.err_replies'', ''err'', core_reply_total cl, CounterValue),
     (''core.fwd_replies'', ''fwd'', core_reply_total cl, CounterValue),
     (''core.rcv_replies'', ''rcv'', core_reply_total cl, CounterValue),
     (''core.rcv_replies_18x'', ''18x'', core_rcv_reply_total cl, CounterValue),
     (''core.rcv_replies_1xx'', ''1xx'', core_rcv_reply_total cl, CounterValue),
     (''core.rcv_replies_2xx'', ''2xx'', core_rcv_reply_total cl, CounterValue),
     (''core.rcv_replies_3xx'', ''3xx'', core_rcv_reply_total cl, CounterValue),
     (''core.rcv_replies_401'', ''401'', core_rcv_reply_total cl, CounterValue),
     (''core.rcv_replies_404'', ''404'', core_rcv_reply_total cl, CounterValue),
     (''core.rcv_replies_407'', ''407'', core_rcv_reply_total cl, CounterValue),
     (''core.rcv_replies_408'', ''408'', core_rcv_reply_total cl, CounterValue),
     (''core.rcv_replies_480'', ''480'', core_rcv_reply_total cl, CounterValue),
     (''core.rcv_replies_486'', ''486'', core_rcv_reply_total cl, CounterValue),
     (''core.rcv_replies_4xx'', ''4xx'', core_rcv_reply_total cl, CounterValue),
     (''core.rcv_replies_5xx'', ''5xx'', core_rcv_reply_total cl, CounterValue),
     (''core.rcv_replies_6xx'', ''6xx'', core_rcv_reply_total cl, CounterValue),
     (''shmem.free_size'', ''free'', shmem_bytes cl, GaugeValue),
     (''shmem.max_used_size'', ''max_used'', shmem_bytes cl, GaugeValue),
     (''shmem.real_used_size'', ''real_used'', shmem_bytes cl, GaugeValue),
     (''shmem.total_size'', ''total'', shmem_bytes cl, GaugeValue),
     (''shmem.used_size'', ''used'', shmem_bytes cl, GaugeValue),
     (''shmem.fragments'', '''', shmem_fragments cl, GaugeValue),
     (''dns.failed_dns_request'', '''', dns_failed cl, CounterValue),
     (''core.bad_URIs_rcvd'', '''', bad_uri cl, CounterValue),
     (''core.bad_msg_hdr'', '''', bad_msg_hdr cl, CounterValue),
     (''sl.1xx_replies'', ''1xx'', sl_reply_total cl, CounterValue),
     (''sl.200_replies'', ''200'', sl_reply_total cl, CounterValue),
     (''sl.202_replies'', ''202'', sl_reply_total cl, CounterValue),
     (''sl.2xx_replies'', ''2xx'', sl_reply_total cl, CounterValue),
     (''sl.300_replies'', ''300'', sl_reply_total cl, CounterValue),
     (''sl.301_replies'', ''301'', sl_reply_total cl, CounterValue),
     (''sl.302_replies'', ''302'', sl_reply_total cl, CounterValue),
     (''sl.3xx_replies'', ''3xx'', sl_reply_total cl, CounterValue),
     (''sl.400_replies'', ''400'', sl_reply_total cl, CounterValue),
     (''sl.401_replies'', ''401'', sl_reply_total cl, CounterValue),
     (''sl.403_replies'', ''403'', sl_reply_total cl, CounterValue),
     (''sl.404_replies'', ''404'', sl_reply_total cl, CounterValue),
     (''sl.407_replies'', ''407'', sl_reply_total cl, CounterValue),
     (''sl.408_replies'', ''408'', sl_reply_total cl, CounterValue),
     (''sl.483_replies'', ''483'', sl_reply_total cl, CounterValue),
     (''sl.4xx_replies'', ''4xx'', sl_reply_total cl, CounterValue),
     (''sl.500_replies'', ''500'', sl_reply_total cl, CounterValue),
     (''sl.5xx_replies'', ''5xx'', sl_reply_total cl, CounterValue),
     (''sl.6xx_replies'', ''6xx'', sl_reply_total cl, CounterValue),
     (''sl.failures'', ''failure'', sl_type_total cl, CounterValue),
     (''sl.received_ACKs'', ''received_ack'', sl_type_total cl, CounterValue),
     (''sl.sent_err_replies'', ''sent_err_reply'', sl_type_total cl, CounterValue),
     (''sl.sent_replies'', ''sent_reply'', sl_type_total cl, CounterValue),
     (''sl.xxx_replies'', ''xxx_reply'', sl_type_total cl, CounterValue),
     (''tcp.con_reset'', ''con_reset'', tcp_total cl, CounterValue),
     (''tcp.con_timeout'', ''con_timeout'', tcp_total cl, CounterValue),
     (''tcp.connect_failed'', ''connect_failed'', tcp_total cl, CounterValue),
     (''tcp.connect_success'', ''connect_success'', tcp_total cl, CounterValue),
     (''tcp.established'', ''established'', tcp_total cl, CounterValue),
     (''tcp.local_reject'', ''local_reject'', tcp_total cl, CounterValue),
     (''tcp.passive_open'', ''passive_open'', tcp_total cl, CounterValue),
     (''tcp.send_timeout'', ''send_timeout'', tcp_total cl, CounterValue),
     (''tcp.sendq_full'', ''sendq_full'', tcp_total cl, CounterValue),
     (''tcp.current_opened_connections'', '''', tcp_connections cl, GaugeValue),
     (''tcp.current_write_queue_size'', '''', tcp_writequeue cl, GaugeValue),
     (''tmx.2xx_transactions'', ''2xx'', tmx_code_total cl, CounterValue),
     (''tmx.3xx_transactions'', ''3xx'', tmx_code_total cl, CounterValue),
     (''tmx.4xx_transactions'', ''4xx'', tmx_code_total cl, CounterValue),
     (''tmx.5xx_transactions'', ''5xx'', tmx_code_total cl, CounterValue),
     (''tmx.6xx_transactions'', ''6xx'', tmx_code_total cl, CounterValue),
     (''tmx.UAC_transactions'', ''uac'', tmx_type_total cl, CounterValue),
     (''tmx.UAS_transactions'', ''uas'', tmx_type_total cl, CounterValue),
     (''tmx.active_transactions'', ''active'', tmx cl, GaugeValue),
     (''tmx.inuse_transactions'', ''inuse'', tmx cl, GaugeValue),
     (''tmx.rpl_absorbed'', ''absorbed'', tmx_rpl_total cl, CounterValue),
     (''tmx.rpl_generated'', ''generated'', tmx_rpl_total cl, CounterValue),
     (''tmx.rpl_received'', ''received'', tmx_rpl_total cl, CounterValue),
     (''tmx.rpl_relayed'', ''relayed'', tmx_rpl_total cl, CounterValue),
     (''tmx.rpl_sent'', ''sent'', tmx_rpl_total cl, CounterValue),
     (''dialog.active_dialogs'', ''active_dialogs'', dialog cl, CounterValue),
     (''dialog.early_dialogs'', ''early_dialogs'', dialog cl, CounterValue),
     (''dialog.expired_dialogs'', ''expired_dialogs'', dialog cl, CounterValue),
     (''dialog.failed_dialogs'', ''failed_dialogs'', dialog cl, CounterValue),
     (''dialog.processed_dialogs'', ''processed_dialogs'', dialog cl, CounterValue)]"

definition produceMetrics ::
  "(string \<Rightarrow> 'v option) \<Rightarrow> Labels \<Rightarrow> (string \<rightharpoonup> string) \<Rightarrow> 'v Metric list" where
  "produceMetrics ParseFloat cl completeStatMap =
     concat (map (\<lambda>(statKey, optionalLabelValue, metricDescription, valueType).
                    convertStatToMetric ParseFloat completeStatMap statKey optionalLabelValue
                      metricDescription valueType)
                 (statCatalog cl))"

text \<open>
  Go iterates over a map in an order it does not specify. The order in which
  \<^verbatim>\<open>convertScriptedMetrics\<close> meets the keys of the flat map is the parameter \<open>ks\<close>: a
  list of the keys of the map without repetition.
  The parameter \<open>unicodeLower\<close> is the one of \<open>ToLower\<close>.
\<close>

fun convertScriptedMetrics ::
  "(string \<Rightarrow> 'v option) \<Rightarrow> (string \<Rightarrow> string) \<Rightarrow> Labels \<Rightarrow> (string \<rightharpoonup> string) \<Rightarrow> string list
     \<Rightarrow> 'v Metric list" where
  "convertScriptedMetrics ParseFloat unicodeLower cl data [] = []"
| "convertScriptedMetrics ParseFloat unicodeLower cl data (k # ks) =
     (if HasPrefix k ''script.''
      then (let metricName = ToLower unicodeLower (TrimPrefix k ''script.'');
                valueType =
                  (if HasSuffix k ''_total'' \<or> HasSuffix k ''_seconds'' \<or> HasSuffix k ''_bytes''
                   then CounterValue else GaugeValue);
                description =
                  NewDesc (''kamailio_'' @ metricName) (''Scripted metric '' @ metricName) [] cl
            in convertStatToMetric ParseFloat data k '''' description valueType)
      else [])
     @ convertScriptedMetrics ParseFloat unicodeLower cl data ks"

definition iterationOrder :: "(string \<rightharpoonup> string) \<Rightarrow> string list \<Rightarrow> bool" where
  "iterationOrder data ks = (distinct ks \<and> set ks = dom data)"

text \<open>
  A parser for the closed examples below: it reads a non-empty string of decimal digits
  as the number it denotes and rejects any other string. On these strings, as long as the
  number is below \<open>2 ^ 53\<close>, \<^verbatim>\<open>strconv.ParseFloat\<close> returns the same number; so does it
  reject the empty string.
\<close>

definition digitsFloat :: "string \<Rightarrow> real option" where
  "digitsFloat s =
     (if s \<noteq> [] \<and> list_all (\<lambda>c. 48 \<le> (of_char c :: nat) \<and> (of_char c :: nat) \<le> 57) s
      then Some (real (foldl (\<lambda>a c. 10 * a + (of_char c - 48)) 0 s))
      else None)"

text \<open>A network on which every request is answered by the given records.\<close>

definition answering :: "Record list \<Rightarrow> network" where
  "answering records =
     \<lparr>Dial = (\<lambda>kind address. None),
      WritePacket = (\<lambda>args. Inr ''cookie''),
      ReadPacket = (\<lambda>cookie. Inr records)\<rparr>"

subsection \<open>Notions used to state the properties\<close>

fun dials :: "event list \<Rightarrow> (string \<times> string) list" where
  \<comment> \<open>the connection attempts of a run: network kind and address, in order\<close>
  "dials [] = []"
| "dials (Dialed kind address # evs) = (kind, address) # dials evs"
| "dials (_ # evs) = dials evs"

definition bothConfigured :: StatsCollector where
  "bothConfigured =
     \<lparr>socketPath = ''/var/run/kamailio/kamailio_ctl'', kamailioHost = ''10.0.0.1'',
      kamailioPort = 2049\<rparr>"

definition socketOnly :: StatsCollector where
  "socketOnly =
     \<lparr>socketPath = ''/var/run/kamailio/kamailio_ctl'', kamailioHost = '''',
      kamailioPort = 3012\<rparr>"

definition recognizedKeys :: "string list" where
  "recognizedKeys =
     [''entry'', ''pid'', ''rank'', ''used'', ''free'', ''real_used'', ''total_size'',
      ''total_frags'']"

definition entryField :: "string \<Rightarrow> MemoryEntry \<Rightarrow> string" where
  \<comment> \<open>the field of an entry that the normalizer stores a wire key in\<close>
  "entryField key e =
     (if key = ''entry'' then Entry e
      else if key = ''pid'' then Pid e
      else if key = ''rank'' then Rank e
      else if key = ''used'' then Used e
      else if key = ''free'' then Free e
      else if key = ''real_used'' then RealUsed e
      else if key = ''total_size'' then TotalSize e
      else if key = ''total_frags'' then TotalFrags e
      else '''')"

fun isInt :: "Record \<Rightarrow> bool" where
  "isInt (IntValue i) = True"
| "isInt _ = False"

definition skipped :: "string \<Rightarrow> Record \<Rightarrow> bool" where
  \<comment> \<open>an item whose wire value is not an integer or whose key is not a recognized one\<close>
  "skipped key item = (\<not> isInt item \<or> key \<notin> set recognizedKeys)"

definition validConstLabels :: "Labels \<Rightarrow> bool" where
  \<comment> \<open>constant labels that a descriptor accepts: valid names, each once, and values that
      are valid UTF-8\<close>
  "validConstLabels cl =
     (list_all checkLabelName (map fst cl) \<and> list_all ValidString (map snd cl)
      \<and> distinct (map fst cl))"

definition noUnicode :: "string \<Rightarrow> string" where
  \<comment> \<open>stands for the Unicode path of \<open>ToLower\<close> in the closed examples, whose strings
      are ASCII and never take that path\<close>
  "noUnicode s = s"

definition siteLabels :: Labels where
  "siteLabels = [(''instance'', ''sbc1''), (''site'', ''lab'')]"

definition secondEntry :: MemoryEntry where
  "secondEntry =
     \<lparr>Entry = ''1'', Pid = ''124'', Rank = ''2'', Used = ''10'', Free = ''20'',
      RealUsed = ''30'', TotalSize = ''40'', TotalFrags = ''5''\<rparr>"

definition memReply :: "Record list" where
  \<comment> \<open>a reply to \<^verbatim>\<open>pkg.stats\<close>: a full record, a record with an unknown key and a
      string value, and a record that is no struct\<close>
  "memReply =
     [StructValue
        [(''entry'', IntValue 0), (''pid'', IntValue 123), (''rank'', IntValue 1),
         (''used'', IntValue 1000), (''free'', IntValue 500), (''real_used'', IntValue 900),
         (''total_size'', IntValue 2000), (''total_frags'', IntValue 3)],
      StructValue [(''entry'', IntValue 1), (''comment'', IntValue 9), (''used'', StringValue ''many'')],
      IntValue 7]"

definition scenarioEntry :: MemoryEntry where
  "scenarioEntry =
     \<lparr>Entry = ''0'', Pid = ''123'', Rank = ''1'', Used = ''1000'', Free = ''500'',
      RealUsed = ''900'', TotalSize = ''2000'', TotalFrags = ''3''\<rparr>"

definition statsReply :: "Record list" where
  \<comment> \<open>a reply to \<^verbatim>\<open>stats.fetch\<close>: one struct, with a key that occurs twice and an
      integer value where a string is expected\<close>
  "statsReply =
     [StructValue
        [(''core.rcv_requests'', StringValue ''7''), (''core.rcv_requests'', StringValue ''42''),
         (''shmem.used_size'', IntValue 1024)]]"

definition scenarioMap :: "string \<rightharpoonup> string" where
  "scenarioMap =
     [''core.rcv_requests'' \<mapsto> ''42'', ''sl.200_replies'' \<mapsto> ''10'',
      ''script.custom_total'' \<mapsto> ''5'']"

definition scenarioKeys :: "string list" where
  \<comment> \<open>one of the orders in which the keys of \<open>scenarioMap\<close> can be met\<close>
  "scenarioKeys = [''script.custom_total'', ''sl.200_replies'', ''core.rcv_requests'']"

definition scriptedMap :: "string \<rightharpoonup> string" where
  "scriptedMap =
     [''script.Custom_Total'' \<mapsto> ''5'', ''script.custom_total'' \<mapsto> ''7'',
      ''core.rcv_requests'' \<mapsto> ''42'', ''usrloc.location_users'' \<mapsto> ''17'']"

section \<open>Properties\<close>

subsection \<open>Transport selection\<close>

lemma Itoa_2049: "Itoa 2049 = ''2049''"
  by (simp add: Itoa_def decimalDigits.simps)

lemma execRPCCommand_answering:
  "fst (execRPCCommand (answering records) c command param) = Inr records"
  by (simp add: execRPCCommand_def answering_def Let_def split: prod.split)

text \<open>
  Claim C1, as amended. Every run of \<^verbatim>\<open>execRPCCommand\<close> makes exactly one connection
  attempt, and the host decides its target: with an empty host it goes to the domain
  socket at the socket path, otherwise over TCP to \<open>host:port\<close>, whatever the socket path
  is.
\<close>

theorem execRPCCommand_dials_by_host:
  "dials (snd (execRPCCommand nw c command param)) =
     [if kamailioHost c = '''' then (''unix'', socketPath c)
      else (''tcp'', kamailioHost c @ '':'' @ Itoa (kamailioPort c))]"
  by (simp add: execRPCCommand_def Let_def split: option.split sum.split)

theorem execRPCCommand_dials_by_host_witness:
  "dials (snd (execRPCCommand (answering []) bothConfigured ''stats.fetch'' ''all'')) =
     [(''tcp'', ''10.0.0.1:2049'')]
   \<and> dials (snd (execRPCCommand (answering []) socketOnly ''stats.fetch'' ''all'')) =
     [(''unix'', ''/var/run/kamailio/kamailio_ctl'')]"
  using execRPCCommand_dials_by_host [of "answering []" bothConfigured "''stats.fetch''" "''all''"]
    execRPCCommand_dials_by_host [of "answering []" socketOnly "''stats.fetch''" "''all''"]
  by (simp add: bothConfigured_def socketOnly_def Itoa_2049)

text \<open>
  Claim C1 as stated fails when both a socket path and a host are configured: the socket
  path is not empty, yet the only connection attempt is the TCP one and the domain socket
  is never dialed.
\<close>

theorem execRPCCommand_socket_precedence_counterexample:
  "socketPath bothConfigured \<noteq> ''''
   \<and> snd (execRPCCommand (answering []) bothConfigured ''stats.fetch'' ''all'') =
       [Dialed ''tcp'' ''10.0.0.1:2049'', Written [''stats.fetch'', ''all''],
        ReadBack ''cookie'', Closed]
   \<and> Dialed ''unix'' (socketPath bothConfigured)
       \<notin> set (snd (execRPCCommand (answering []) bothConfigured ''stats.fetch'' ''all''))"
  by (simp add: execRPCCommand_def bothConfigured_def answering_def Itoa_2049)

subsection \<open>The flat stat map builder\<close>

text \<open>
  Claim C2. \<^verbatim>\<open>fetchStats\<close> reads \<^verbatim>\<open>records[0]\<close> without looking at the length of
  the reply: when the RPC round trip succeeds with no record at all, the function neither
  returns a map nor returns an error, it panics.
\<close>

theorem fetchStats_empty_reply_panics:
  "fst (execRPCCommand (answering []) c ''stats.fetch'' ''all'') = Inr []
   \<and> fetchStats (answering []) c = Panics"
  by (simp add: fetchStats_def execRPCCommand_def answering_def Let_def split: prod.split)

lemma insertItems_other:
  "key \<notin> fst ` set items \<Longrightarrow>
   foldl (\<lambda>result (k, item). result(k \<mapsto> f item)) m items key = m key"
  by (induction items arbitrary: m) (auto split: prod.splits)

lemma insertItems_last:
  "key \<notin> fst ` set post \<Longrightarrow>
   foldl (\<lambda>result (k, item). result(k \<mapsto> f item)) m (pre @ (key, item) # post) key
     = Some (f item)"
  by (simp add: insertItems_other)

lemma insertItems_dom:
  "dom (foldl (\<lambda>result (k, item). result(k \<mapsto> f item)) m items) = dom m \<union> fst ` set items"
  by (induction items arbitrary: m) (auto split: prod.splits)

lemma fetchStats_ok:
  "fst (execRPCCommand nw c ''stats.fetch'' ''all'') = Inr (record # rs) \<Longrightarrow>
   fetchStats nw c =
     Returns (Inr (foldl (\<lambda>result (key, item). result(key \<mapsto> fst (String_of item)))
                         Map.empty (fst (StructItems record))))"
  by (simp add: fetchStats_def)

lemma fetchStats_error_iff:
  "fetchStats nw c = Returns (Inl err)
     \<longleftrightarrow> fst (execRPCCommand nw c ''stats.fetch'' ''all'') = Inl err"
  by (simp add: fetchStats_def split: sum.split list.split)

lemma StructItems_failed: "snd (StructItems r) \<noteq> None \<Longrightarrow> fst (StructItems r) = []"
  by (cases r) simp_all

text \<open>
  Claim C6, as amended. When the reply has a first record, \<^verbatim>\<open>fetchStats\<close> succeeds and
  the keys of the map are exactly the keys of the items of that record. The last item of
  a key decides its value: the string when the item holds a string, the empty string
  when the conversion to a string fails.
\<close>

theorem fetchStats_inserts_every_item:
  assumes "fst (execRPCCommand nw c ''stats.fetch'' ''all'') = Inr (record # rs)"
  shows "\<exists>m. fetchStats nw c = Returns (Inr m)
           \<and> dom m = fst ` set (fst (StructItems record))
           \<and> (\<forall>pre key item post.
                 fst (StructItems record) = pre @ (key, item) # post \<and> key \<notin> fst ` set post
                 \<longrightarrow> (case item of StringValue s \<Rightarrow> m key = Some s | _ \<Rightarrow> m key = Some ''''))"
proof -
  let ?m = "foldl (\<lambda>result (key, item). result(key \<mapsto> fst (String_of item)))
                  Map.empty (fst (StructItems record))"
  have "fetchStats nw c = Returns (Inr ?m)"
    using assms by (rule fetchStats_ok)
  moreover have "dom ?m = fst ` set (fst (StructItems record))"
    by (simp add: insertItems_dom)
  moreover have "\<forall>pre key item post.
      fst (StructItems record) = pre @ (key, item) # post \<and> key \<notin> fst ` set post
      \<longrightarrow> (case item of StringValue s \<Rightarrow> ?m key = Some s | _ \<Rightarrow> ?m key = Some '''')"
  proof (intro allI impI)
    fix pre key item post
    assume "fst (StructItems record) = pre @ (key, item) # post \<and> key \<notin> fst ` set post"
    with insertItems_last [of key post "\<lambda>item. fst (String_of item)" Map.empty pre item]
    have "?m key = Some (fst (String_of item))"
      by simp
    then show "case item of StringValue s \<Rightarrow> ?m key = Some s | _ \<Rightarrow> ?m key = Some ''''"
      by (cases item) simp_all
  qed
  ultimately show ?thesis by blast
qed

theorem fetchStats_inserts_every_item_witness:
  "\<exists>m. fetchStats (answering statsReply) socketOnly = Returns (Inr m)
     \<and> dom m = {''core.rcv_requests'', ''shmem.used_size''}
     \<and> m ''core.rcv_requests'' = Some ''42''
     \<and> m ''shmem.used_size'' = Some ''''"
proof -
  have ok: "fst (execRPCCommand (answering statsReply) socketOnly ''stats.fetch'' ''all'')
            = Inr (hd statsReply # tl statsReply)"
    by (simp add: execRPCCommand_def answering_def statsReply_def Let_def split: prod.split)
  from fetchStats_inserts_every_item [OF ok]
  obtain m where
    m: "fetchStats (answering statsReply) socketOnly = Returns (Inr m)"
    and d: "dom m = fst ` set (fst (StructItems (hd statsReply)))"
    and v: "\<forall>pre key item post.
              fst (StructItems (hd statsReply)) = pre @ (key, item) # post \<and> key \<notin> fst ` set post
              \<longrightarrow> (case item of StringValue s \<Rightarrow> m key = Some s | _ \<Rightarrow> m key = Some '''')"
    by blast
  from d have d': "dom m = {''core.rcv_requests'', ''shmem.used_size''}"
    by (auto simp: statsReply_def)
  from v [rule_format, of "[(''core.rcv_requests'', StringValue ''7'')]" "''core.rcv_requests''"
            "StringValue ''42''" "[(''shmem.used_size'', IntValue 1024)]"]
  have a: "m ''core.rcv_requests'' = Some ''42''"
    by (simp add: statsReply_def)
  from v [rule_format, of "[(''core.rcv_requests'', StringValue ''7''),
                            (''core.rcv_requests'', StringValue ''42'')]" "''shmem.used_size''"
            "IntValue 1024" "[]"]
  have b: "m ''shmem.used_size'' = Some ''''"
    by (simp add: statsReply_def)
  from m d' a b show ?thesis by blast
qed

text \<open>
  Claim C6 as stated fails on an item whose value is an integer: the conversion to a
  string fails, the error is dropped, and the key is in the map with the empty string.
\<close>

theorem fetchStats_failed_conversion_counterexample:
  "snd (String_of (IntValue 1024)) \<noteq> None
   \<and> fetchStats (answering [StructValue [(''shmem.used_size'', IntValue 1024)]]) socketOnly
       = Returns (Inr [''shmem.used_size'' \<mapsto> ''''])"
  by (simp add: fetchStats_def execRPCCommand_def answering_def Let_def split: prod.split)

subsection \<open>The memory record normalizer\<close>

lemma readItems_append:
  "readItems m (xs @ ys) = readItems (readItems m xs) ys"
  by (induction xs arbitrary: m) (auto split: prod.splits option.splits)

lemma storeField_unrecognized: "key \<notin> set recognizedKeys \<Longrightarrow> storeField m key text = m"
  by (simp add: storeField_def recognizedKeys_def)

lemma readItems_skipped:
  "skipped key item \<Longrightarrow> readItems m ((key, item) # post) = readItems m post"
  by (cases item) (auto simp: skipped_def storeField_unrecognized)

lemma readItems_skip_item:
  "skipped key item \<Longrightarrow> readItems m (pre @ (key, item) # post) = readItems m (pre @ post)"
  by (simp add: readItems_append readItems_skipped del: readItems.simps)

lemma entryField_storeField_other:
  "key' \<noteq> key \<Longrightarrow> entryField key (storeField m key' text) = entryField key m"
  by (auto simp: entryField_def storeField_def)

lemma readItems_field_unset:
  "\<forall>i. (key, IntValue i) \<notin> set items \<Longrightarrow>
   entryField key (readItems m items) = entryField key m"
proof (induction items arbitrary: m)
  case Nil
  then show ?case by simp
next
  case (Cons a items)
  obtain k item where a: "a = (k, item)" by (cases a)
  show ?case
  proof (cases item)
    case (IntValue i)
    with Cons.prems a have "k \<noteq> key" by auto
    with Cons a IntValue show ?thesis
      by (simp add: entryField_storeField_other)
  qed (use Cons a in auto)
qed

lemma entryField_emptyEntry: "entryField key emptyEntry = ''''"
  by (simp add: entryField_def emptyEntry_def)

lemma fetchPKGMemStats_ok:
  "fst (execRPCCommand nw c ''pkg.stats'' '''') = Inr records \<Longrightarrow>
   fetchPKGMemStats nw c =
     Inr (map (\<lambda>record. readItems emptyEntry (fst (StructItems record))) records)"
  by (simp add: fetchPKGMemStats_def)

lemma fetchPKGMemStats_error_iff:
  "fetchPKGMemStats nw c = Inl err \<longleftrightarrow> fst (execRPCCommand nw c ''pkg.stats'' '''') = Inl err"
  by (simp add: fetchPKGMemStats_def split: sum.split)

text \<open>
  Claim C9. \<^verbatim>\<open>fetchPKGMemStats\<close> returns an error exactly when the RPC invocation
  does. When the invocation succeeds, the normalizer succeeds with one entry for each
  record; an item that is no integer or has no recognized key is skipped for that item
  only, that is, the entry is the one the record without that item yields; and a field
  that no integer item of the record names is the empty string.
\<close>

theorem fetchPKGMemStats_fails_only_with_rpc:
  "(fetchPKGMemStats nw c = Inl err \<longleftrightarrow> fst (execRPCCommand nw c ''pkg.stats'' '''') = Inl err)
   \<and> (fst (execRPCCommand nw c ''pkg.stats'' '''') = Inr records \<longrightarrow>
        (\<exists>entries. fetchPKGMemStats nw c = Inr entries \<and> length entries = length records
           \<and> (\<forall>n pre key item post.
                 n < length records \<and> records ! n = StructValue (pre @ (key, item) # post)
                 \<and> skipped key item
                 \<longrightarrow> entries ! n = readItems emptyEntry (pre @ post))
           \<and> (\<forall>n items key.
                 n < length records \<and> records ! n = StructValue items
                 \<and> key \<in> set recognizedKeys \<and> (\<forall>i. (key, IntValue i) \<notin> set items)
                 \<longrightarrow> entryField key (entries ! n) = '''')))"
proof (intro conjI impI)
  show "fetchPKGMemStats nw c = Inl err \<longleftrightarrow> fst (execRPCCommand nw c ''pkg.stats'' '''') = Inl err"
    by (rule fetchPKGMemStats_error_iff)
next
  assume ok: "fst (execRPCCommand nw c ''pkg.stats'' '''') = Inr records"
  let ?entries = "map (\<lambda>record. readItems emptyEntry (fst (StructItems record))) records"
  have "fetchPKGMemStats nw c = Inr ?entries"
    using ok by (rule fetchPKGMemStats_ok)
  moreover have "length ?entries = length records" by simp
  moreover have "\<forall>n pre key item post.
      n < length records \<and> records ! n = StructValue (pre @ (key, item) # post)
      \<and> skipped key item
      \<longrightarrow> ?entries ! n = readItems emptyEntry (pre @ post)"
    by (simp add: readItems_skip_item)
  moreover have "\<forall>n items key.
      n < length records \<and> records ! n = StructValue items
      \<and> key \<in> set recognizedKeys \<and> (\<forall>i. (key, IntValue i) \<notin> set items)
      \<longrightarrow> entryField key (?entries ! n) = ''''"
    by (simp add: readItems_field_unset entryField_emptyEntry)
  ultimately show "\<exists>entries. fetchPKGMemStats nw c = Inr entries \<and> length entries = length records
           \<and> (\<forall>n pre key item post.
                 n < length records \<and> records ! n = StructValue (pre @ (key, item) # post)
                 \<and> skipped key item
                 \<longrightarrow> entries ! n = readItems emptyEntry (pre @ post))
           \<and> (\<forall>n items key.
                 n < length records \<and> records ! n = StructValue items
                 \<and> key \<in> set recognizedKeys \<and> (\<forall>i. (key, IntValue i) \<notin> set items)
                 \<longrightarrow> entryField key (entries ! n) = '''')"
    by blast
qed

theorem fetchPKGMemStats_fails_only_with_rpc_witness:
  "\<exists>entries. fetchPKGMemStats (answering memReply) socketOnly = Inr entries
     \<and> length entries = 3
     \<and> entries ! 1 = readItems emptyEntry [(''entry'', IntValue 1), (''used'', StringValue ''many'')]
     \<and> Used (entries ! 1) = ''''"
proof -
  have ok: "fst (execRPCCommand (answering memReply) socketOnly ''pkg.stats'' '''') = Inr memReply"
    by (rule execRPCCommand_answering)
  from fetchPKGMemStats_fails_only_with_rpc
         [of "answering memReply" socketOnly "Error ''none''" memReply] ok
  obtain entries where
    e: "fetchPKGMemStats (answering memReply) socketOnly = Inr entries"
    and len: "length entries = length memReply"
    and skip: "\<forall>n pre key item post.
                 n < length memReply \<and> memReply ! n = StructValue (pre @ (key, item) # post)
                 \<and> skipped key item
                 \<longrightarrow> entries ! n = readItems emptyEntry (pre @ post)"
    and unset: "\<forall>n items key.
                 n < length memReply \<and> memReply ! n = StructValue items
                 \<and> key \<in> set recognizedKeys \<and> (\<forall>i. (key, IntValue i) \<notin> set items)
                 \<longrightarrow> entryField key (entries ! n) = ''''"
    by blast
  have "skipped ''comment'' (IntValue 9)"
    by (simp add: skipped_def recognizedKeys_def)
  with skip [rule_format, of 1 "[(''entry'', IntValue 1)]" "''comment''" "IntValue 9"
               "[(''used'', StringValue ''many'')]"]
  have one: "entries ! 1 = readItems emptyEntry [(''entry'', IntValue 1), (''used'', StringValue ''many'')]"
    by (simp add: memReply_def)
  from unset [rule_format, of 1 "[(''entry'', IntValue 1), (''comment'', IntValue 9), (''used'', StringValue ''many'')]" "''used''"]
  have "entryField ''used'' (entries ! 1) = ''''"
    by (simp add: memReply_def recognizedKeys_def)
  then have used: "Used (entries ! 1) = ''''"
    by (simp add: entryField_def)
  from e len one used show ?thesis
    by (simp add: memReply_def)
qed

lemma readItems_all_skipped:
  "\<forall>key item. (key, item) \<in> set items \<longrightarrow> skipped key item \<Longrightarrow> readItems m items = m"
proof (induction items)
  case Nil
  then show ?case by simp
next
  case (Cons a items)
  obtain k item where a: "a = (k, item)" by (cases a)
  with Cons.prems have "skipped k item" by simp
  then have "readItems m (a # items) = readItems m items"
    unfolding a by (rule readItems_skipped)
  with Cons show ?case by simp
qed

lemma convertPKGStatToMetric_length:
  "length (convertPKGStatToMetric ParseFloat cl text labels) \<le> 1"
  by (simp add: convertPKGStatToMetric_def split: option.split sum.split)

lemma producePKGMemMetrics_length:
  "length (producePKGMemMetrics ParseFloat cl entries) \<le> 5 * length entries"
proof (induction entries)
  case Nil
  then show ?case by simp
next
  case (Cons e entries)
  have "length (producePKGMemMetrics ParseFloat cl (e # entries))
        = length (convertPKGStatToMetric ParseFloat cl (Used e) [Entry e, Pid e, Rank e, ''used''])
        + length (convertPKGStatToMetric ParseFloat cl (Free e) [Entry e, Pid e, Rank e, ''free''])
        + length (convertPKGStatToMetric ParseFloat cl (RealUsed e) [Entry e, Pid e, Rank e, ''real_used''])
        + length (convertPKGStatToMetric ParseFloat cl (TotalSize e) [Entry e, Pid e, Rank e, ''total''])
        + length (convertPKGStatToMetric ParseFloat cl (TotalFrags e) [Entry e, Pid e, Rank e, ''total_frags''])
        + length (producePKGMemMetrics ParseFloat cl entries)"
    by (simp add: Let_def)
  also have "\<dots> \<le> 1 + 1 + 1 + 1 + 1 + 5 * length entries"
    by (intro add_mono convertPKGStatToMetric_length Cons.IH)
  finally show ?case by simp
qed

lemma producePKGMemMetrics_emptyEntry:
  "ParseFloat '''' = None \<Longrightarrow> producePKGMemMetrics ParseFloat cl [emptyEntry] = []"
  by (simp add: emptyEntry_def convertPKGStatToMetric_def Let_def)

lemma digitsFloat_empty: "digitsFloat '''' = None"
  by (simp add: digitsFloat_def)

text \<open>
  Claim C10. The normalizer yields exactly one entry for each record of the reply. A record
  none of whose items is an integer item with a recognized key (a record that is no
  struct has no items) yields the all-empty entry, and since \<^verbatim>\<open>ParseFloat\<close> rejects the
  empty string that entry produces no sample; so the samples of a reply can be fewer than
  five times its entries, and they are never more.
\<close>

theorem fetchPKGMemStats_one_entry_per_record:
  assumes ok: "fst (execRPCCommand nw c ''pkg.stats'' '''') = Inr records"
    and empty: "ParseFloat '''' = None"
  shows "\<exists>entries. fetchPKGMemStats nw c = Inr entries \<and> length entries = length records
           \<and> (\<forall>n. n < length records
                    \<and> (\<forall>key item. (key, item) \<in> set (fst (StructItems (records ! n)))
                                    \<longrightarrow> skipped key item)
                  \<longrightarrow> entries ! n = emptyEntry
                      \<and> producePKGMemMetrics ParseFloat cl [entries ! n] = [])
           \<and> length (producePKGMemMetrics ParseFloat cl entries) \<le> 5 * length entries"
proof -
  let ?entries = "map (\<lambda>record. readItems emptyEntry (fst (StructItems record))) records"
  have "fetchPKGMemStats nw c = Inr ?entries"
    using ok by (rule fetchPKGMemStats_ok)
  moreover have "length ?entries = length records" by simp
  moreover have "\<forall>n. n < length records
                    \<and> (\<forall>key item. (key, item) \<in> set (fst (StructItems (records ! n)))
                                    \<longrightarrow> skipped key item)
                  \<longrightarrow> ?entries ! n = emptyEntry
                      \<and> producePKGMemMetrics ParseFloat cl [?entries ! n] = []"
    using empty
    by (simp add: readItems_all_skipped producePKGMemMetrics_emptyEntry del: producePKGMemMetrics.simps)
  moreover have "length (producePKGMemMetrics ParseFloat cl ?entries) \<le> 5 * length ?entries"
    by (rule producePKGMemMetrics_length)
  ultimately show ?thesis by blast
qed

theorem fetchPKGMemStats_one_entry_per_record_witness:
  "\<exists>entries. fetchPKGMemStats (answering memReply) socketOnly = Inr entries
     \<and> length entries = 3
     \<and> entries ! 2 = emptyEntry
     \<and> producePKGMemMetrics digitsFloat siteLabels [entries ! 2] = []
     \<and> length (producePKGMemMetrics digitsFloat siteLabels entries) \<le> 15"
proof -
  have ok: "fst (execRPCCommand (answering memReply) socketOnly ''pkg.stats'' '''') = Inr memReply"
    by (rule execRPCCommand_answering)
  from fetchPKGMemStats_one_entry_per_record
         [where ParseFloat = digitsFloat and cl = siteLabels, OF ok digitsFloat_empty]
  obtain entries where
    e: "fetchPKGMemStats (answering memReply) socketOnly = Inr entries"
    and len: "length entries = length memReply"
    and skip: "\<forall>n. n < length memReply
                    \<and> (\<forall>key item. (key, item) \<in> set (fst (StructItems (memReply ! n)))
                                    \<longrightarrow> skipped key item)
                  \<longrightarrow> entries ! n = emptyEntry
                      \<and> producePKGMemMetrics digitsFloat siteLabels [entries ! n] = []"
    and bound: "length (producePKGMemMetrics digitsFloat siteLabels entries) \<le> 5 * length entries"
    by blast
  have "2 < length memReply
        \<and> (\<forall>key item. (key, item) \<in> set (fst (StructItems (memReply ! 2)))
                        \<longrightarrow> skipped key item)"
    by (simp add: memReply_def)
  from skip [rule_format, OF this]
  have two: "entries ! 2 = emptyEntry"
    and none: "producePKGMemMetrics digitsFloat siteLabels [entries ! 2] = []"
    by blast+
  from e len bound two none show ?thesis
    by (simp add: memReply_def del: producePKGMemMetrics.simps)
qed

subsection \<open>Records that fail to decode\<close>

text \<open>
  Claim C5, as amended. Each fetch returns an error exactly when the RPC invocation does.
  A record that fails to decode into struct items is read as a record without items:
  \<^verbatim>\<open>fetchStats\<close> returns the empty map when its first record fails to decode, and
  \<^verbatim>\<open>fetchPKGMemStats\<close> returns the all-empty entry at the position of such a record.
\<close>

theorem fetch_ignores_decode_failure:
  "(fetchStats nw c = Returns (Inl err)
      \<longleftrightarrow> fst (execRPCCommand nw c ''stats.fetch'' ''all'') = Inl err)
   \<and> (fetchPKGMemStats nw c = Inl err
      \<longleftrightarrow> fst (execRPCCommand nw c ''pkg.stats'' '''') = Inl err)
   \<and> (snd (StructItems r) \<noteq> None
        \<and> fst (execRPCCommand nw c ''stats.fetch'' ''all'') = Inr (r # rs)
      \<longrightarrow> fetchStats nw c = Returns (Inr Map.empty))
   \<and> (snd (StructItems r) \<noteq> None
        \<and> fst (execRPCCommand nw c ''pkg.stats'' '''') = Inr (rs1 @ r # rs2)
      \<longrightarrow> (\<exists>es1 es2. fetchPKGMemStats nw c = Inr (es1 @ emptyEntry # es2)
                     \<and> length es1 = length rs1 \<and> length es2 = length rs2))"
proof (intro conjI impI)
  show "fetchStats nw c = Returns (Inl err)
          \<longleftrightarrow> fst (execRPCCommand nw c ''stats.fetch'' ''all'') = Inl err"
    by (rule fetchStats_error_iff)
next
  show "fetchPKGMemStats nw c = Inl err
          \<longleftrightarrow> fst (execRPCCommand nw c ''pkg.stats'' '''') = Inl err"
    by (simp add: fetchPKGMemStats_def split: sum.split)
next
  assume "snd (StructItems r) \<noteq> None
            \<and> fst (execRPCCommand nw c ''stats.fetch'' ''all'') = Inr (r # rs)"
  then show "fetchStats nw c = Returns (Inr Map.empty)"
    by (simp add: fetchStats_ok StructItems_failed)
next
  assume a: "snd (StructItems r) \<noteq> None
            \<and> fst (execRPCCommand nw c ''pkg.stats'' '''') = Inr (rs1 @ r # rs2)"
  let ?f = "\<lambda>record. readItems emptyEntry (fst (StructItems record))"
  from a have "fetchPKGMemStats nw c = Inr (map ?f rs1 @ emptyEntry # map ?f rs2)"
    by (simp add: fetchPKGMemStats_def StructItems_failed)
  then show "\<exists>es1 es2. fetchPKGMemStats nw c = Inr (es1 @ emptyEntry # es2)
                     \<and> length es1 = length rs1 \<and> length es2 = length rs2"
    by (metis length_map)
qed

theorem fetch_ignores_decode_failure_witness:
  "fetchStats (answering [IntValue 7]) socketOnly = Returns (Inr Map.empty)
   \<and> (\<exists>es1 es2. fetchPKGMemStats (answering memReply) socketOnly = Inr (es1 @ emptyEntry # es2)
                 \<and> length es1 = 2 \<and> length es2 = 0)"
proof -
  have bad: "snd (StructItems (IntValue 7)) \<noteq> None" by simp
  have s: "fst (execRPCCommand (answering [IntValue 7]) socketOnly ''stats.fetch'' ''all'')
           = Inr (IntValue 7 # [])"
    by (simp add: execRPCCommand_def answering_def Let_def split: prod.split)
  have p: "fst (execRPCCommand (answering memReply) socketOnly ''pkg.stats'' '''')
           = Inr (take 2 memReply @ IntValue 7 # [])"
    by (simp add: execRPCCommand_def answering_def memReply_def Let_def split: prod.split)
  have len: "length (take 2 memReply) = 2"
    by (simp add: memReply_def)
  from fetch_ignores_decode_failure
         [of "answering [IntValue 7]" socketOnly "Error ''none''" "IntValue 7" "[]" "[]" "[]"] bad s
  have one: "fetchStats (answering [IntValue 7]) socketOnly = Returns (Inr Map.empty)"
    by blast
  from fetch_ignores_decode_failure
         [of "answering memReply" socketOnly "Error ''none''" "IntValue 7" "[]" "take 2 memReply" "[]"]
       bad p
  have "\<exists>es1 es2. fetchPKGMemStats (answering memReply) socketOnly = Inr (es1 @ emptyEntry # es2)
                 \<and> length es1 = length (take 2 memReply) \<and> length es2 = length ([] :: Record list)"
    by blast
  then have two: "\<exists>es1 es2. fetchPKGMemStats (answering memReply) socketOnly = Inr (es1 @ emptyEntry # es2)
                 \<and> length es1 = 2 \<and> length es2 = 0"
    by (simp add: len del: length_take)
  from one two show ?thesis by blast
qed

text \<open>
  Claim C5 as stated fails on a reply whose only record is an integer: decoding it into
  struct items fails, and both fetches return successfully, with an empty map and with
  an all-empty entry.
\<close>

theorem fetch_decode_failure_counterexample:
  "snd (StructItems (IntValue 7)) \<noteq> None
   \<and> fetchStats (answering [IntValue 7]) socketOnly = Returns (Inr Map.empty)
   \<and> fetchPKGMemStats (answering [IntValue 7]) socketOnly = Inr [emptyEntry]"
  by (simp add: fetchStats_def fetchPKGMemStats_def execRPCCommand_def answering_def Let_def
           split: prod.split)

subsection \<open>Descriptors that carry no error\<close>

lemma nameBytes_ascii:
  "nameBytes colon i s \<Longrightarrow> list_all (\<lambda>c. (of_char c :: nat) < 128) s"
  by (induction s arbitrary: i) (auto simp: nameByte_def Let_def)

lemma ascii_ValidString:
  "list_all (\<lambda>c. (of_char c :: nat) < 128) s \<Longrightarrow> ValidString s"
  by (induction s) (simp_all add: Let_def)

lemma IsValidMetricName_ValidString: "IsValidMetricName n \<Longrightarrow> ValidString n"
  unfolding IsValidMetricName_def by (blast intro: ascii_ValidString nameBytes_ascii)

lemma descErr_NewDesc:
  "descErr (NewDesc name text labels cl) = None \<longleftrightarrow>
     IsValidMetricName name \<and> list_all checkLabelName (map fst cl)
     \<and> list_all ValidString (name # map snd cl) \<and> list_all checkLabelName labels
     \<and> distinct (map fst cl @ labels)"
  by (auto simp: NewDesc_def Let_def)

lemma descErr_NewDesc_None:
  assumes "IsValidMetricName name" and "validConstLabels cl"
    and "list_all checkLabelName labels" and "distinct labels"
    and "set labels \<inter> fst ` set cl = {}"
  shows "descErr (NewDesc name text labels cl) = None"
proof -
  from assms(1) have "ValidString name"
    by (rule IsValidMetricName_ValidString)
  moreover from assms(2,4,5) have "distinct (map fst cl @ labels)"
    by (auto simp: validConstLabels_def)
  ultimately show ?thesis
    using assms(1,2,3) by (simp add: descErr_NewDesc validConstLabels_def)
qed

lemma descErr_NewDesc_no_labels:
  "descErr (NewDesc name text [] cl) = None \<longleftrightarrow> IsValidMetricName name \<and> validConstLabels cl"
  using IsValidMetricName_ValidString [of name]
  by (auto simp: descErr_NewDesc validConstLabels_def)

lemma variableLabels_NewDesc: "variableLabels (NewDesc name text labels cl) = labels"
  by (simp add: NewDesc_def Let_def)

lemma fqName_NewDesc: "fqName (NewDesc name text labels cl) = name"
  by (simp add: NewDesc_def Let_def)

lemma NewConstMetric_ok:
  "descErr d = None \<Longrightarrow> length lvs = length (variableLabels d) \<Longrightarrow> list_all ValidString lvs \<Longrightarrow>
   NewConstMetric d t v lvs = Inr \<lparr>desc = d, valType = t, val = v, labelValues = lvs\<rparr>"
  by (simp add: NewConstMetric_def)

subsection \<open>The memory translator\<close>

lemma descErr_pkgmem_bytes:
  assumes "validConstLabels cl"
    and "set [''index'', ''pid'', ''rank'', ''type''] \<inter> fst ` set cl = {}"
  shows "descErr (pkgmem_bytes cl) = None"
  unfolding pkgmem_bytes_def
proof (rule descErr_NewDesc_None)
  show "IsValidMetricName ''kamailio_pkg_bytes''"
    by (simp add: IsValidMetricName_def nameByte_def)
  show "list_all checkLabelName [''index'', ''pid'', ''rank'', ''type'']"
    by (simp add: checkLabelName_def nameByte_def HasPrefix_def)
  show "distinct [''index'', ''pid'', ''rank'', ''type'']"
    by simp
qed (use assms in simp_all)

lemma convertPKGStatToMetric_emits:
  assumes "descErr (pkgmem_bytes cl) = None" and "ParseFloat text = Some v"
    and "length labels = 4" and "list_all ValidString labels"
  shows "convertPKGStatToMetric ParseFloat cl text labels =
           [\<lparr>desc = pkgmem_bytes cl, valType = GaugeValue, val = v, labelValues = labels\<rparr>]"
proof -
  have "variableLabels (pkgmem_bytes cl) = [''index'', ''pid'', ''rank'', ''type'']"
    by (simp add: pkgmem_bytes_def variableLabels_NewDesc)
  with assms have "NewConstMetric (pkgmem_bytes cl) GaugeValue v labels =
      Inr \<lparr>desc = pkgmem_bytes cl, valType = GaugeValue, val = v, labelValues = labels\<rparr>"
    by (intro NewConstMetric_ok) simp_all
  with assms(2) show ?thesis
    by (simp add: convertPKGStatToMetric_def)
qed

lemma producePKGMemMetrics_append:
  "producePKGMemMetrics ParseFloat cl (xs @ ys) =
     producePKGMemMetrics ParseFloat cl xs @ producePKGMemMetrics ParseFloat cl ys"
  by (induction xs) (simp_all add: Let_def)

text \<open>
  Claim C7, as amended. Let the constant labels be valid and none of them bear the name
  of a label of \<^verbatim>\<open>kamailio_pkg_bytes\<close>. An entry is well formed when \<^verbatim>\<open>ParseFloat\<close>
  accepts its five value fields and its entry, pid and rank are valid UTF-8, as decimal
  numerals are. For such an entry, wherever it stands among the entries, the translator
  emits exactly five gauge samples on the descriptor \<^verbatim>\<open>kamailio_pkg_bytes\<close>, between
  what it emits for the entries before and after; they share the label values of entry,
  pid and rank and differ in the fourth label value, which is used, free, real_used,
  total and total_frags in turn.
\<close>

theorem producePKGMemMetrics_five_gauges:
  assumes "validConstLabels cl"
    and "set [''index'', ''pid'', ''rank'', ''type''] \<inter> fst ` set cl = {}"
    and "ValidString (Entry e)" and "ValidString (Pid e)" and "ValidString (Rank e)"
    and "ParseFloat (Used e) = Some vUsed"
    and "ParseFloat (Free e) = Some vFree"
    and "ParseFloat (RealUsed e) = Some vRealUsed"
    and "ParseFloat (TotalSize e) = Some vTotal"
    and "ParseFloat (TotalFrags e) = Some vFrags"
  shows "producePKGMemMetrics ParseFloat cl (earlier @ e # later) =
           producePKGMemMetrics ParseFloat cl earlier
           @ [\<lparr>desc = pkgmem_bytes cl, valType = GaugeValue, val = vUsed,
                labelValues = [Entry e, Pid e, Rank e, ''used'']\<rparr>,
              \<lparr>desc = pkgmem_bytes cl, valType = GaugeValue, val = vFree,
                labelValues = [Entry e, Pid e, Rank e, ''free'']\<rparr>,
              \<lparr>desc = pkgmem_bytes cl, valType = GaugeValue, val = vRealUsed,
                labelValues = [Entry e, Pid e, Rank e, ''real_used'']\<rparr>,
              \<lparr>desc = pkgmem_bytes cl, valType = GaugeValue, val = vTotal,
                labelValues = [Entry e, Pid e, Rank e, ''total'']\<rparr>,
              \<lparr>desc = pkgmem_bytes cl, valType = GaugeValue, val = vFrags,
                labelValues = [Entry e, Pid e, Rank e, ''total_frags'']\<rparr>]
           @ producePKGMemMetrics ParseFloat cl later
         \<and> fqName (pkgmem_bytes cl) = ''kamailio_pkg_bytes''
         \<and> descErr (pkgmem_bytes cl) = None"
proof -
  have ok: "descErr (pkgmem_bytes cl) = None"
    using assms(1,2) by (rule descErr_pkgmem_bytes)
  have emits: "convertPKGStatToMetric ParseFloat cl field [Entry e, Pid e, Rank e, kind] =
      [\<lparr>desc = pkgmem_bytes cl, valType = GaugeValue, val = v,
        labelValues = [Entry e, Pid e, Rank e, kind]\<rparr>]"
    if "ParseFloat field = Some v" and "ValidString kind" for field v kind
    using ok that assms(3,4,5) by (intro convertPKGStatToMetric_emits) simp_all
  have "producePKGMemMetrics ParseFloat cl [e] =
          [\<lparr>desc = pkgmem_bytes cl, valType = GaugeValue, val = vUsed,
             labelValues = [Entry e, Pid e, Rank e, ''used'']\<rparr>,
           \<lparr>desc = pkgmem_bytes cl, valType = GaugeValue, val = vFree,
             labelValues = [Entry e, Pid e, Rank e, ''free'']\<rparr>,
           \<lparr>desc = pkgmem_bytes cl, valType = GaugeValue, val = vRealUsed,
             labelValues = [Entry e, Pid e, Rank e, ''real_used'']\<rparr>,
           \<lparr>desc = pkgmem_bytes cl, valType = GaugeValue, val = vTotal,
             labelValues = [Entry e, Pid e, Rank e, ''total'']\<rparr>,
           \<lparr>desc = pkgmem_bytes cl, valType = GaugeValue, val = vFrags,
             labelValues = [Entry e, Pid e, Rank e, ''total_frags'']\<rparr>]"
    by (simp add: Let_def emits [OF assms(6)] emits [OF assms(7)] emits [OF assms(8)]
          emits [OF assms(9)] emits [OF assms(10)])
  then have "producePKGMemMetrics ParseFloat cl (earlier @ e # later) =
           producePKGMemMetrics ParseFloat cl earlier
           @ [\<lparr>desc = pkgmem_bytes cl, valType = GaugeValue, val = vUsed,
                labelValues = [Entry e, Pid e, Rank e, ''used'']\<rparr>,
              \<lparr>desc = pkgmem_bytes cl, valType = GaugeValue, val = vFree,
                labelValues = [Entry e, Pid e, Rank e, ''free'']\<rparr>,
              \<lparr>desc = pkgmem_bytes cl, valType = GaugeValue, val = vRealUsed,
                labelValues = [Entry e, Pid e, Rank e, ''real_used'']\<rparr>,
              \<lparr>desc = pkgmem_bytes cl, valType = GaugeValue, val = vTotal,
                labelValues = [Entry e, Pid e, Rank e, ''total'']\<rparr>,
              \<lparr>desc = pkgmem_bytes cl, valType = GaugeValue, val = vFrags,
                labelValues = [Entry e, Pid e, Rank e, ''total_frags'']\<rparr>]
           @ producePKGMemMetrics ParseFloat cl later"
    using producePKGMemMetrics_append [of ParseFloat cl earlier "e # later"]
      producePKGMemMetrics_append [of ParseFloat cl "[e]" later]
    by (simp del: producePKGMemMetrics.simps)
  moreover have "fqName (pkgmem_bytes cl) = ''kamailio_pkg_bytes''"
    by (simp add: pkgmem_bytes_def fqName_NewDesc)
  ultimately show ?thesis
    using ok by simp
qed

lemma validConstLabels_siteLabels: "validConstLabels siteLabels"
  by (simp add: validConstLabels_def siteLabels_def checkLabelName_def nameByte_def HasPrefix_def)

lemma site_label_names: "fst ` set siteLabels = {''instance'', ''site''}"
  by (auto simp: siteLabels_def)

theorem producePKGMemMetrics_five_gauges_witness:
  "producePKGMemMetrics digitsFloat siteLabels [scenarioEntry, secondEntry] =
     [\<lparr>desc = pkgmem_bytes siteLabels, valType = GaugeValue, val = 1000,
        labelValues = [''0'', ''123'', ''1'', ''used'']\<rparr>,
      \<lparr>desc = pkgmem_bytes siteLabels, valType = GaugeValue, val = 500,
        labelValues = [''0'', ''123'', ''1'', ''free'']\<rparr>,
      \<lparr>desc = pkgmem_bytes siteLabels, valType = GaugeValue, val = 900,
        labelValues = [''0'', ''123'', ''1'', ''real_used'']\<rparr>,
      \<lparr>desc = pkgmem_bytes siteLabels, valType = GaugeValue, val = 2000,
        labelValues = [''0'', ''123'', ''1'', ''total'']\<rparr>,
      \<lparr>desc = pkgmem_bytes siteLabels, valType = GaugeValue, val = 3,
        labelValues = [''0'', ''123'', ''1'', ''total_frags'']\<rparr>,
      \<lparr>desc = pkgmem_bytes siteLabels, valType = GaugeValue, val = 10,
        labelValues = [''1'', ''124'', ''2'', ''used'']\<rparr>,
      \<lparr>desc = pkgmem_bytes siteLabels, valType = GaugeValue, val = 20,
        labelValues = [''1'', ''124'', ''2'', ''free'']\<rparr>,
      \<lparr>desc = pkgmem_bytes siteLabels, valType = GaugeValue, val = 30,
        labelValues = [''1'', ''124'', ''2'', ''real_used'']\<rparr>,
      \<lparr>desc = pkgmem_bytes siteLabels, valType = GaugeValue, val = 40,
        labelValues = [''1'', ''124'', ''2'', ''total'']\<rparr>,
      \<lparr>desc = pkgmem_bytes siteLabels, valType = GaugeValue, val = 5,
        labelValues = [''1'', ''124'', ''2'', ''total_frags'']\<rparr>]
   \<and> fqName (pkgmem_bytes siteLabels) = ''kamailio_pkg_bytes''"
proof -
  have names: "set [''index'', ''pid'', ''rank'', ''type''] \<inter> fst ` set siteLabels = {}"
    by (simp add: site_label_names)
  have first: "ValidString (Entry scenarioEntry)" "ValidString (Pid scenarioEntry)"
    "ValidString (Rank scenarioEntry)"
    "digitsFloat (Used scenarioEntry) = Some 1000"
    "digitsFloat (Free scenarioEntry) = Some 500"
    "digitsFloat (RealUsed scenarioEntry) = Some 900"
    "digitsFloat (TotalSize scenarioEntry) = Some 2000"
    "digitsFloat (TotalFrags scenarioEntry) = Some 3"
    by (simp_all add: digitsFloat_def scenarioEntry_def)
  have second: "ValidString (Entry secondEntry)" "ValidString (Pid secondEntry)"
    "ValidString (Rank secondEntry)"
    "digitsFloat (Used secondEntry) = Some 10"
    "digitsFloat (Free secondEntry) = Some 20"
    "digitsFloat (RealUsed secondEntry) = Some 30"
    "digitsFloat (TotalSize secondEntry) = Some 40"
    "digitsFloat (TotalFrags secondEntry) = Some 5"
    by (simp_all add: digitsFloat_def secondEntry_def)
  note one = producePKGMemMetrics_five_gauges
    [where ParseFloat = digitsFloat and cl = siteLabels and e = scenarioEntry
       and earlier = "[]" and later = "[secondEntry]",
     OF validConstLabels_siteLabels names first]
  note two = producePKGMemMetrics_five_gauges
    [where ParseFloat = digitsFloat and cl = siteLabels and e = secondEntry
       and earlier = "[]" and later = "[]",
     OF validConstLabels_siteLabels names second]
  from one two show ?thesis
    by (simp add: scenarioEntry_def secondEntry_def del: producePKGMemMetrics.simps
          add: producePKGMemMetrics.simps(1))
qed

text \<open>
  Claim C7 as stated fails under a constant label named \<^verbatim>\<open>type\<close>: the descriptor
  \<^verbatim>\<open>kamailio_pkg_bytes\<close> then has that label name twice and carries an error, no metric
  can be made of it, and the entry of the scenario, whose fields are all decimal
  numerals, yields no sample.
\<close>

theorem producePKGMemMetrics_label_clash_counterexample:
  "digitsFloat (Used scenarioEntry) = Some 1000
   \<and> descErr (pkgmem_bytes [(''type'', ''x'')]) = Some (Error ''duplicate label names'')
   \<and> producePKGMemMetrics digitsFloat [(''type'', ''x'')] [scenarioEntry] = []"
  by (simp add: digitsFloat_def scenarioEntry_def pkgmem_bytes_def NewDesc_def Let_def
        IsValidMetricName_def checkLabelName_def nameByte_def HasPrefix_def
        convertPKGStatToMetric_def NewConstMetric_def)

subsection \<open>The scripted translator\<close>

lemma HasSuffix_iff_suffix: "HasSuffix s suf \<longleftrightarrow> suffix suf s"
proof
  assume "HasSuffix s suf"
  then have "s = take (length s - length suf) s @ suf"
    by (metis HasSuffix_def append_take_drop_id)
  then show "suffix suf s"
    by (metis suffixI)
next
  assume "suffix suf s"
  then obtain zs where "s = zs @ suf"
    by (auto simp: suffix_def)
  then show "HasSuffix s suf"
    by (simp add: HasSuffix_def)
qed

lemma HasPrefix_append: "HasPrefix (pre @ X) pre"
  by (simp add: HasPrefix_def)

lemma TrimPrefix_append: "TrimPrefix (pre @ X) pre = X"
  by (simp add: TrimPrefix_def HasPrefix_def)

lemma suffix_past_separator:
  assumes "pre \<noteq> []" and "last pre \<notin> set suf"
  shows "suffix suf (pre @ X) \<longleftrightarrow> suffix suf X"
proof
  assume "suffix suf (pre @ X)"
  then consider "suffix suf X" | xs' where "suf = xs' @ X" "suffix xs' pre"
    by (auto simp: suffix_append)
  then show "suffix suf X"
  proof cases
    case 1
    then show ?thesis .
  next
    case 2
    show ?thesis
    proof (cases "xs' = []")
      case True
      with 2 show ?thesis by simp
    next
      case False
      with 2 assms have "last xs' = last pre"
        by (auto simp: suffix_def)
      with False have "last pre \<in> set xs'"
        by (metis last_in_set)
      with 2 assms show ?thesis by simp
    qed
  qed
next
  assume "suffix suf X"
  then show "suffix suf (pre @ X)"
    by (simp add: suffix_appendI)
qed

lemma HasSuffix_script:
  "CHR ''.'' \<notin> set suf \<Longrightarrow> HasSuffix (''script.'' @ X) suf \<longleftrightarrow> HasSuffix X suf"
  unfolding HasSuffix_iff_suffix
  by (rule suffix_past_separator) simp_all

lemma convertScriptedMetrics_append:
  "convertScriptedMetrics ParseFloat unicodeLower cl data (xs @ ys) =
     convertScriptedMetrics ParseFloat unicodeLower cl data xs
     @ convertScriptedMetrics ParseFloat unicodeLower cl data ys"
  by (induction xs) simp_all

lemma convertScriptedMetrics_split:
  "convertScriptedMetrics ParseFloat unicodeLower cl data (ks1 @ k # ks2) =
     convertScriptedMetrics ParseFloat unicodeLower cl data ks1
     @ convertScriptedMetrics ParseFloat unicodeLower cl data [k]
     @ convertScriptedMetrics ParseFloat unicodeLower cl data ks2"
  using convertScriptedMetrics_append [of ParseFloat unicodeLower cl data ks1 "k # ks2"]
    convertScriptedMetrics_append [of ParseFloat unicodeLower cl data "[k]" ks2]
  by (simp del: convertScriptedMetrics.simps)

lemma convertStatToMetric_emits:
  assumes "completeStatMap statKey = Some s" and "ParseFloat s = Some v"
    and "descErr d = None"
    and "length (if lv \<noteq> '''' then [lv] else []) = length (variableLabels d)"
    and "ValidString lv"
  shows "convertStatToMetric ParseFloat completeStatMap statKey lv d t =
           [\<lparr>desc = d, valType = t, val = v,
             labelValues = (if lv \<noteq> '''' then [lv] else [])\<rparr>]"
proof -
  from assms(3,4,5)
  have "NewConstMetric d t v (if lv \<noteq> '''' then [lv] else []) =
          Inr \<lparr>desc = d, valType = t, val = v,
               labelValues = (if lv \<noteq> '''' then [lv] else [])\<rparr>"
    by (intro NewConstMetric_ok) simp_all
  with assms(1,2) show ?thesis
    by (simp add: convertStatToMetric_def Let_def)
qed

lemma convertStatToMetric_descErr:
  "descErr d \<noteq> None \<Longrightarrow> convertStatToMetric ParseFloat completeStatMap statKey lv d t = []"
  by (auto simp: convertStatToMetric_def NewConstMetric_def Let_def split: option.split)

lemma convertStatToMetric_absent:
  "completeStatMap statKey = None \<Longrightarrow>
   convertStatToMetric ParseFloat completeStatMap statKey lv d t = []"
  by (simp add: convertStatToMetric_def)

lemma convertStatToMetric_upd_other:
  "k \<noteq> statKey \<Longrightarrow>
   convertStatToMetric ParseFloat (completeStatMap(k := x)) statKey lv d t =
   convertStatToMetric ParseFloat completeStatMap statKey lv d t"
  by (simp add: convertStatToMetric_def)

lemma ToLower_examples:
  "ToLower unicodeLower ''Custom_Total'' = ''custom_total''"
  "ToLower unicodeLower ''custom_total'' = ''custom_total''"
  "ToLower unicodeLower ''my-stat'' = ''my-stat''"
  by (simp_all add: ToLower_def lowerByte_def char_of_def bit_0)

lemma digitsFloat_examples:
  "digitsFloat ''42'' = Some 42" "digitsFloat ''10'' = Some 10" "digitsFloat ''5'' = Some 5"
  "digitsFloat ''7'' = Some 7"
  by (simp_all add: digitsFloat_def)

lemma convertScriptedMetrics_single:
  assumes "data (''script.'' @ X) = Some s" and "ParseFloat s = Some v"
  shows "convertScriptedMetrics ParseFloat unicodeLower cl data [''script.'' @ X] =
           (if IsValidMetricName (''kamailio_'' @ ToLower unicodeLower X) \<and> validConstLabels cl
            then [\<lparr>desc = NewDesc (''kamailio_'' @ ToLower unicodeLower X)
                           (''Scripted metric '' @ ToLower unicodeLower X) [] cl,
                    valType =
                      (if HasSuffix X ''_total'' \<or> HasSuffix X ''_seconds''
                          \<or> HasSuffix X ''_bytes''
                       then CounterValue else GaugeValue),
                    val = v, labelValues = []\<rparr>]
            else [])"
proof -
  define k where "k = ''script.'' @ X"
  define name where "name = ''kamailio_'' @ ToLower unicodeLower X"
  define d where "d = NewDesc name (''Scripted metric '' @ ToLower unicodeLower X) [] cl"
  define t where "t = (if HasSuffix X ''_total'' \<or> HasSuffix X ''_seconds''
                          \<or> HasSuffix X ''_bytes''
                       then CounterValue else GaugeValue)"
  have scripted: "HasPrefix k ''script.''" and trim: "TrimPrefix k ''script.'' = X"
    unfolding k_def by (rule HasPrefix_append, rule TrimPrefix_append)
  have suf: "HasSuffix k ''_total'' \<longleftrightarrow> HasSuffix X ''_total''"
    "HasSuffix k ''_seconds'' \<longleftrightarrow> HasSuffix X ''_seconds''"
    "HasSuffix k ''_bytes'' \<longleftrightarrow> HasSuffix X ''_bytes''"
    unfolding k_def by (rule HasSuffix_script, simp)+
  from assms have held: "data k = Some s"
    unfolding k_def by simp
  have step: "convertScriptedMetrics ParseFloat unicodeLower cl data [k] =
                convertStatToMetric ParseFloat data k '''' d t"
    using scripted trim by (simp add: suf Let_def d_def name_def t_def)
  have err: "descErr d = None \<longleftrightarrow> IsValidMetricName name \<and> validConstLabels cl"
    unfolding d_def by (rule descErr_NewDesc_no_labels)
  have "convertStatToMetric ParseFloat data k '''' d t =
          (if IsValidMetricName name \<and> validConstLabels cl
           then [\<lparr>desc = d, valType = t, val = v, labelValues = []\<rparr>] else [])"
  proof (cases "descErr d = None")
    case True
    have "variableLabels d = []"
      unfolding d_def by (rule variableLabels_NewDesc)
    with True held assms(2)
      convertStatToMetric_emits [of data k s ParseFloat v d "''''" t]
    have "convertStatToMetric ParseFloat data k '''' d t =
            [\<lparr>desc = d, valType = t, val = v, labelValues = []\<rparr>]"
      by simp
    with True err show ?thesis
      by simp
  next
    case False
    then have "convertStatToMetric ParseFloat data k '''' d t = []"
      by (rule convertStatToMetric_descErr)
    with False err show ?thesis
      by simp
  qed
  with step show ?thesis
    unfolding k_def name_def d_def t_def by simp
qed

text \<open>
  Claim C4, as amended. When the scripted translator meets a key \<open>script.X\<close> whose value
  parses as a float, it sends, between what it sends for the keys before and after,
  exactly one sample if \<^verbatim>\<open>kamailio_\<close> followed by \<open>X\<close> in lower case is a valid metric
  name and the constant labels are valid, and nothing otherwise. The sample has no
  label, it bears that name, and it is a counter if \<open>X\<close> or the prefixed key ends in
  \<^verbatim>\<open>_total\<close>, \<^verbatim>\<open>_seconds\<close> or \<^verbatim>\<open>_bytes\<close>, and a gauge otherwise.
\<close>

theorem convertScriptedMetrics_sample:
  assumes "data (''script.'' @ X) = Some s"
    and "ParseFloat s = Some v"
  shows "convertScriptedMetrics ParseFloat unicodeLower cl data (pre @ (''script.'' @ X) # post) =
           convertScriptedMetrics ParseFloat unicodeLower cl data pre
           @ (if IsValidMetricName (''kamailio_'' @ ToLower unicodeLower X) \<and> validConstLabels cl
              then [\<lparr>desc = NewDesc (''kamailio_'' @ ToLower unicodeLower X)
                             (''Scripted metric '' @ ToLower unicodeLower X) [] cl,
                      valType =
                        (if HasSuffix X ''_total'' \<or> HasSuffix X ''_seconds''
                            \<or> HasSuffix X ''_bytes''
                            \<or> HasSuffix (''script.'' @ X) ''_total''
                            \<or> HasSuffix (''script.'' @ X) ''_seconds''
                            \<or> HasSuffix (''script.'' @ X) ''_bytes''
                         then CounterValue else GaugeValue),
                      val = v, labelValues = []\<rparr>]
              else [])
           @ convertScriptedMetrics ParseFloat unicodeLower cl data post"
proof -
  have suf: "HasSuffix (''script.'' @ X) ''_total'' \<longleftrightarrow> HasSuffix X ''_total''"
    "HasSuffix (''script.'' @ X) ''_seconds'' \<longleftrightarrow> HasSuffix X ''_seconds''"
    "HasSuffix (''script.'' @ X) ''_bytes'' \<longleftrightarrow> HasSuffix X ''_bytes''"
    by (rule HasSuffix_script, simp)+
  have kind:
    "(if HasSuffix X ''_total'' \<or> HasSuffix X ''_seconds'' \<or> HasSuffix X ''_bytes''
         \<or> HasSuffix (''script.'' @ X) ''_total''
         \<or> HasSuffix (''script.'' @ X) ''_seconds''
         \<or> HasSuffix (''script.'' @ X) ''_bytes''
      then CounterValue else GaugeValue)
     = (if HasSuffix X ''_total'' \<or> HasSuffix X ''_seconds'' \<or> HasSuffix X ''_bytes''
        then CounterValue else GaugeValue)"
    unfolding suf by auto
  show ?thesis
    by (simp only: kind
          convertScriptedMetrics_split [of _ _ _ _ pre "''script.'' @ X" post]
          convertScriptedMetrics_single
            [where data = data and X = X and ParseFloat = ParseFloat, OF assms])
qed

theorem convertScriptedMetrics_sample_witness:
  "convertScriptedMetrics digitsFloat noUnicode siteLabels scriptedMap
      [''core.rcv_requests'', ''script.Custom_Total'', ''script.custom_total'']
    = [\<lparr>desc = NewDesc ''kamailio_custom_total'' ''Scripted metric custom_total'' [] siteLabels,
        valType = GaugeValue, val = 5, labelValues = []\<rparr>,
       \<lparr>desc = NewDesc ''kamailio_custom_total'' ''Scripted metric custom_total'' [] siteLabels,
        valType = CounterValue, val = 7, labelValues = []\<rparr>]"
proof -
  have a: "scriptedMap (''script.'' @ ''Custom_Total'') = Some ''5''"
    and b: "scriptedMap (''script.'' @ ''custom_total'') = Some ''7''"
    by (simp_all add: scriptedMap_def)
  have rest: "convertScriptedMetrics digitsFloat noUnicode siteLabels scriptedMap
                [''core.rcv_requests''] = []"
    by (simp add: HasPrefix_def)
  have valid: "IsValidMetricName ''kamailio_custom_total''"
    by (simp add: IsValidMetricName_def nameByte_def)
  from convertScriptedMetrics_sample
         [where data = scriptedMap and X = "''custom_total''" and ParseFloat = digitsFloat
            and unicodeLower = noUnicode and cl = siteLabels
            and pre = "[''core.rcv_requests'', ''script.Custom_Total'']"
            and post = "[]", OF b digitsFloat_examples(4)]
       convertScriptedMetrics_sample
         [where data = scriptedMap and X = "''Custom_Total''" and ParseFloat = digitsFloat
            and unicodeLower = noUnicode and cl = siteLabels
            and pre = "[''core.rcv_requests'']" and post = "[]",
          OF a digitsFloat_examples(3)]
  show ?thesis
    by (simp del: convertScriptedMetrics.simps
             add: rest valid validConstLabels_siteLabels ToLower_examples HasSuffix_def
               convertScriptedMetrics.simps(1))
qed

text \<open>
  Claim C4 as stated fails on the key \<^verbatim>\<open>script.my-stat\<close>: its value parses as a float,
  but \<^verbatim>\<open>kamailio_my-stat\<close> is no valid metric name, the descriptor carries an error, and no
  sample is sent.
\<close>

theorem convertScriptedMetrics_invalid_name_counterexample:
  "digitsFloat ''5'' = Some 5
   \<and> \<not> IsValidMetricName ''kamailio_my-stat''
   \<and> convertScriptedMetrics digitsFloat noUnicode siteLabels [''script.my-stat'' \<mapsto> ''5'']
       [''script.my-stat''] = []"
proof -
  have "([''script.my-stat'' \<mapsto> ''5''] :: string \<rightharpoonup> string) (''script.'' @ ''my-stat'') = Some ''5''"
    by simp
  from convertScriptedMetrics_single
         [where data = "[''script.my-stat'' \<mapsto> ''5'']" and X = "''my-stat''"
            and ParseFloat = digitsFloat and unicodeLower = noUnicode and cl = siteLabels,
          OF this digitsFloat_examples(3)]
  have "convertScriptedMetrics digitsFloat noUnicode siteLabels [''script.my-stat'' \<mapsto> ''5'']
          [''script.my-stat''] =
        (if IsValidMetricName ''kamailio_my-stat'' \<and> validConstLabels siteLabels
         then [\<lparr>desc = NewDesc ''kamailio_my-stat'' ''Scripted metric my-stat'' [] siteLabels,
                 valType = GaugeValue, val = 5, labelValues = []\<rparr>]
         else [])"
    by (simp add: ToLower_examples HasSuffix_def del: convertScriptedMetrics.simps)
  moreover have "\<not> IsValidMetricName ''kamailio_my-stat''"
    by (simp add: IsValidMetricName_def nameByte_def)
  ultimately show ?thesis
    by (simp add: digitsFloat_examples del: convertScriptedMetrics.simps)
qed

subsection \<open>Keys outside the catalog\<close>

lemma produceMetrics_upd:
  assumes "k \<notin> fst ` set (statCatalog cl)"
  shows "produceMetrics ParseFloat cl (data(k := x)) = produceMetrics ParseFloat cl data"
proof -
  have "\<forall>row \<in> set (statCatalog cl).
          (case row of (statKey, lv, d, t) \<Rightarrow>
             convertStatToMetric ParseFloat (data(k := x)) statKey lv d t)
        = (case row of (statKey, lv, d, t) \<Rightarrow>
             convertStatToMetric ParseFloat data statKey lv d t)"
  proof
    fix row assume r: "row \<in> set (statCatalog cl)"
    obtain statKey lv d t where row: "row = (statKey, lv, d, t)"
      by (cases row)
    with r assms have "k \<noteq> statKey"
      by force
    then show "(case row of (statKey, lv, d, t) \<Rightarrow>
             convertStatToMetric ParseFloat (data(k := x)) statKey lv d t)
        = (case row of (statKey, lv, d, t) \<Rightarrow>
             convertStatToMetric ParseFloat data statKey lv d t)"
      by (simp add: row convertStatToMetric_upd_other)
  qed
  then show ?thesis
    unfolding produceMetrics_def
    by (metis (mono_tags, lifting) map_cong)
qed

lemma convertScriptedMetrics_Cons:
  "convertScriptedMetrics ParseFloat unicodeLower cl data (a # ks) =
     convertScriptedMetrics ParseFloat unicodeLower cl data [a]
     @ convertScriptedMetrics ParseFloat unicodeLower cl data ks"
  by simp

lemma convertScriptedMetrics_upd_single:
  "a \<noteq> k \<Longrightarrow>
   convertScriptedMetrics ParseFloat unicodeLower cl (data(k := x)) [a] =
   convertScriptedMetrics ParseFloat unicodeLower cl data [a]"
  by (simp add: convertStatToMetric_upd_other Let_def)

lemma convertScriptedMetrics_upd:
  "\<not> HasPrefix k ''script.'' \<Longrightarrow>
   convertScriptedMetrics ParseFloat unicodeLower cl (data(k := x)) (removeAll k ks) =
   convertScriptedMetrics ParseFloat unicodeLower cl data ks"
proof (induction ks)
  case Nil
  then show ?case by simp
next
  case (Cons a ks)
  note IH = Cons.IH [OF Cons.prems]
  show ?case
  proof (cases "a = k")
    case True
    with Cons.prems IH show ?thesis by simp
  next
    case False
    then have "convertScriptedMetrics ParseFloat unicodeLower cl (data(k := x)) (removeAll k (a # ks))
               = convertScriptedMetrics ParseFloat unicodeLower cl (data(k := x)) [a]
                 @ convertScriptedMetrics ParseFloat unicodeLower cl (data(k := x)) (removeAll k ks)"
      using convertScriptedMetrics_Cons [of ParseFloat unicodeLower cl "data(k := x)" a "removeAll k ks"]
      by (simp del: convertScriptedMetrics.simps)
    also have "\<dots> = convertScriptedMetrics ParseFloat unicodeLower cl data [a]
                     @ convertScriptedMetrics ParseFloat unicodeLower cl data ks"
      by (simp only: convertScriptedMetrics_upd_single [OF False] IH)
    also have "\<dots> = convertScriptedMetrics ParseFloat unicodeLower cl data (a # ks)"
      by (rule convertScriptedMetrics_Cons [symmetric])
    finally show ?thesis .
  qed
qed

lemma location_users_not_in_catalog: "''usrloc.location_users'' \<notin> fst ` set (statCatalog cl)"
  by (simp add: statCatalog_def)

text \<open>
  Claim C8. Let \<open>k\<close> be a key that is no stat key of the catalog and has no prefix
  \<^verbatim>\<open>script.\<close>. Then no sample comes from \<open>k\<close>: removing \<open>k\<close> from the map, or giving
  it any other value, changes nothing in what the well-known translator and the scripted
  translator send, and the step of the scripted translator that meets \<open>k\<close> sends nothing.
\<close>

theorem unknown_key_emits_nothing:
  assumes "k \<notin> fst ` set (statCatalog cl)"
    and "\<not> HasPrefix k ''script.''"
  shows "produceMetrics ParseFloat cl (data(k := x)) = produceMetrics ParseFloat cl data
       \<and> convertScriptedMetrics ParseFloat unicodeLower cl (data(k := x)) (removeAll k ks) =
           convertScriptedMetrics ParseFloat unicodeLower cl data ks
       \<and> convertScriptedMetrics ParseFloat unicodeLower cl data [k] = []"
  using assms
  by (simp add: produceMetrics_upd convertScriptedMetrics_upd del: convertScriptedMetrics.simps)
     (simp)

theorem unknown_key_emits_nothing_witness:
  "produceMetrics digitsFloat siteLabels (scriptedMap(''usrloc.location_users'' := None))
     = produceMetrics digitsFloat siteLabels scriptedMap
   \<and> convertScriptedMetrics digitsFloat noUnicode siteLabels
       (scriptedMap(''usrloc.location_users'' := None))
       (removeAll ''usrloc.location_users''
          [''usrloc.location_users'', ''script.Custom_Total'', ''core.rcv_requests''])
     = convertScriptedMetrics digitsFloat noUnicode siteLabels scriptedMap
         [''usrloc.location_users'', ''script.Custom_Total'', ''core.rcv_requests'']
   \<and> convertScriptedMetrics digitsFloat noUnicode siteLabels scriptedMap
       [''usrloc.location_users''] = []"
proof -
  have a: "''usrloc.location_users'' \<notin> fst ` set (statCatalog siteLabels)"
    by (rule location_users_not_in_catalog)
  have b: "\<not> HasPrefix ''usrloc.location_users'' ''script.''"
    by (simp add: HasPrefix_def)
  show ?thesis
    by (rule unknown_key_emits_nothing [OF a b])
qed

subsection \<open>The scenario of three counters\<close>

lemma concat_map_filter:
  "\<forall>x \<in> set xs. \<not> P x \<longrightarrow> g x = [] \<Longrightarrow> concat (map g xs) = concat (map g (filter P xs))"
  by (induction xs) simp_all

lemma convertScriptedMetrics_none_scripted:
  "\<forall>k \<in> set ks. \<not> HasPrefix k ''script.'' \<Longrightarrow> convertScriptedMetrics ParseFloat unicodeLower cl data ks = []"
  by (induction ks) simp_all

lemma convertScriptedMetrics_only:
  assumes "distinct ks" and "k0 \<in> set ks"
    and "\<forall>k \<in> set ks. k \<noteq> k0 \<longrightarrow> \<not> HasPrefix k ''script.''"
  shows "convertScriptedMetrics ParseFloat unicodeLower cl data ks = convertScriptedMetrics ParseFloat unicodeLower cl data [k0]"
proof -
  from assms(2) obtain ks1 ks2 where ks: "ks = ks1 @ k0 # ks2"
    by (auto dest: split_list)
  with assms(1) have "k0 \<notin> set ks1" "k0 \<notin> set ks2"
    by auto
  with assms(3) ks have "\<forall>k \<in> set ks1. \<not> HasPrefix k ''script.''"
    and "\<forall>k \<in> set ks2. \<not> HasPrefix k ''script.''"
    by auto
  then have "convertScriptedMetrics ParseFloat unicodeLower cl data ks1 = []"
    and "convertScriptedMetrics ParseFloat unicodeLower cl data ks2 = []"
    by (simp_all only: convertScriptedMetrics_none_scripted)
  then show ?thesis
    unfolding ks by (simp only: convertScriptedMetrics_split append_Nil append_Nil2)
qed

lemma scenario_rows:
  "filter (\<lambda>row. fst row = ''core.rcv_requests'' \<or> fst row = ''sl.200_replies'') (statCatalog cl)
     = [(''core.rcv_requests'', ''rcv'', core_request_total cl, CounterValue),
        (''sl.200_replies'', ''200'', sl_reply_total cl, CounterValue)]"
  by (simp add: statCatalog_def)

lemma custom_total_not_in_catalog: "''script.custom_total'' \<notin> fst ` set (statCatalog cl)"
  by (simp add: statCatalog_def)

lemma produceMetrics_scenario:
  assumes others: "\<forall>k \<in> dom data.
        k \<notin> {''core.rcv_requests'', ''sl.200_replies'', ''script.custom_total''}
        \<longrightarrow> k \<notin> fst ` set (statCatalog cl) \<and> \<not> HasPrefix k ''script.''"
  shows "produceMetrics ParseFloat cl data =
           convertStatToMetric ParseFloat data ''core.rcv_requests'' ''rcv''
             (core_request_total cl) CounterValue
           @ convertStatToMetric ParseFloat data ''sl.200_replies'' ''200''
               (sl_reply_total cl) CounterValue"
proof -
  let ?P = "\<lambda>row :: string \<times> string \<times> Desc \<times> ValueType.
              fst row = ''core.rcv_requests'' \<or> fst row = ''sl.200_replies''"
  let ?g = "\<lambda>(statKey, optionalLabelValue, metricDescription, valueType).
              convertStatToMetric ParseFloat data statKey optionalLabelValue
                metricDescription valueType"
  have "\<forall>row \<in> set (statCatalog cl). \<not> ?P row \<longrightarrow> ?g row = []"
  proof (intro ballI impI)
    fix row assume r: "row \<in> set (statCatalog cl)" and n: "\<not> ?P row"
    obtain statKey lv d t where row: "row = (statKey, lv, d, t)"
      by (cases row)
    from r row have cat: "statKey \<in> fst ` set (statCatalog cl)"
      by force
    have "statKey \<notin> dom data"
    proof
      assume held: "statKey \<in> dom data"
      from cat custom_total_not_in_catalog [of cl]
      have "statKey \<noteq> ''script.custom_total''"
        by blast
      moreover from n row
      have "statKey \<noteq> ''core.rcv_requests''" "statKey \<noteq> ''sl.200_replies''"
        by simp_all
      ultimately
      have "statKey \<notin> {''core.rcv_requests'', ''sl.200_replies'', ''script.custom_total''}"
        by simp
      with others held have "statKey \<notin> fst ` set (statCatalog cl)"
        by blast
      with cat show False
        by contradiction
    qed
    then show "?g row = []"
      by (simp add: row convertStatToMetric_absent domIff)
  qed
  then have "produceMetrics ParseFloat cl data = concat (map ?g (filter ?P (statCatalog cl)))"
    unfolding produceMetrics_def by (rule concat_map_filter)
  then show ?thesis
    by (simp add: scenario_rows)
qed

lemma convertScriptedMetrics_scenario:
  assumes held: "data ''script.custom_total'' = Some s"
    and others: "\<forall>k \<in> dom data.
        k \<notin> {''core.rcv_requests'', ''sl.200_replies'', ''script.custom_total''}
        \<longrightarrow> k \<notin> fst ` set (statCatalog cl) \<and> \<not> HasPrefix k ''script.''"
    and order: "iterationOrder data ks"
  shows "convertScriptedMetrics ParseFloat unicodeLower cl data ks =
           convertScriptedMetrics ParseFloat unicodeLower cl data [''script.custom_total'']"
proof -
  from order have d: "distinct ks" and keys: "set ks = dom data"
    by (simp_all add: iterationOrder_def)
  have np: "\<not> HasPrefix ''core.rcv_requests'' ''script.''"
    "\<not> HasPrefix ''sl.200_replies'' ''script.''"
    by (simp_all add: HasPrefix_def)
  have "\<forall>k \<in> set ks. k \<noteq> ''script.custom_total'' \<longrightarrow> \<not> HasPrefix k ''script.''"
  proof (intro ballI impI)
    fix k assume k: "k \<in> set ks" and ne: "k \<noteq> ''script.custom_total''"
    show "\<not> HasPrefix k ''script.''"
    proof (cases "k = ''core.rcv_requests'' \<or> k = ''sl.200_replies''")
      case True
      then show ?thesis
        using np by (elim disjE) simp_all
    next
      case False
      with ne
      have "k \<notin> {''core.rcv_requests'', ''sl.200_replies'', ''script.custom_total''}"
        by simp
      moreover from k keys have "k \<in> dom data"
        by simp
      ultimately show ?thesis
        using others by blast
    qed
  qed
  moreover have "''script.custom_total'' \<in> set ks"
    unfolding keys using held by (rule domI)
  ultimately show ?thesis
    using d by (intro convertScriptedMetrics_only)
qed

lemma custom_total_sample:
  fixes ParseFloat :: "string \<Rightarrow> real option"
  assumes "data ''script.custom_total'' = Some ''5''" and "ParseFloat ''5'' = Some 5"
    and "validConstLabels cl"
  shows "convertScriptedMetrics ParseFloat unicodeLower cl data [''script.custom_total''] =
           [\<lparr>desc = NewDesc ''kamailio_custom_total'' ''Scripted metric custom_total'' [] cl,
              valType = CounterValue, val = 5, labelValues = []\<rparr>]"
proof -
  from assms(1) have "data (''script.'' @ ''custom_total'') = Some ''5''"
    by simp
  from convertScriptedMetrics_single
         [where data = data and X = "''custom_total''" and ParseFloat = ParseFloat
            and unicodeLower = unicodeLower and cl = cl, OF this assms(2)]
  show ?thesis
    using assms(3)
    by (simp add: ToLower_examples HasSuffix_def IsValidMetricName_def nameByte_def
          del: convertScriptedMetrics.simps)
qed

lemma known_samples:
  fixes ParseFloat :: "string \<Rightarrow> real option"
  assumes "validConstLabels cl" and "set [''method'', ''code''] \<inter> fst ` set cl = {}"
    and "data ''core.rcv_requests'' = Some ''42''" and "ParseFloat ''42'' = Some 42"
    and "data ''sl.200_replies'' = Some ''10''" and "ParseFloat ''10'' = Some 10"
  shows "convertStatToMetric ParseFloat data ''core.rcv_requests'' ''rcv''
           (core_request_total cl) CounterValue =
           [\<lparr>desc = NewDesc ''kamailio_core_request_total'' ''Request counters'' [''method''] cl,
              valType = CounterValue, val = 42, labelValues = [''rcv'']\<rparr>]"
    and "convertStatToMetric ParseFloat data ''sl.200_replies'' ''200''
           (sl_reply_total cl) CounterValue =
           [\<lparr>desc = NewDesc ''kamailio_sl_reply_total'' ''Stateless replies by code'' [''code''] cl,
              valType = CounterValue, val = 10, labelValues = [''200'']\<rparr>]"
proof -
  have "descErr (core_request_total cl) = None"
    unfolding core_request_total_def
    using assms(1,2)
    by (intro descErr_NewDesc_None)
       (simp_all add: IsValidMetricName_def checkLabelName_def nameByte_def HasPrefix_def)
  with assms(3,4)
    convertStatToMetric_emits [of data "''core.rcv_requests''" "''42''" ParseFloat 42
      "core_request_total cl" "''rcv''" CounterValue]
  show "convertStatToMetric ParseFloat data ''core.rcv_requests'' ''rcv''
           (core_request_total cl) CounterValue =
           [\<lparr>desc = NewDesc ''kamailio_core_request_total'' ''Request counters'' [''method''] cl,
              valType = CounterValue, val = 42, labelValues = [''rcv'']\<rparr>]"
    by (simp add: core_request_total_def variableLabels_NewDesc)
  have "descErr (sl_reply_total cl) = None"
    unfolding sl_reply_total_def
    using assms(1,2)
    by (intro descErr_NewDesc_None)
       (simp_all add: IsValidMetricName_def checkLabelName_def nameByte_def HasPrefix_def)
  with assms(5,6)
    convertStatToMetric_emits [of data "''sl.200_replies''" "''10''" ParseFloat 10
      "sl_reply_total cl" "''200''" CounterValue]
  show "convertStatToMetric ParseFloat data ''sl.200_replies'' ''200''
           (sl_reply_total cl) CounterValue =
           [\<lparr>desc = NewDesc ''kamailio_sl_reply_total'' ''Stateless replies by code'' [''code''] cl,
              valType = CounterValue, val = 10, labelValues = [''200'']\<rparr>]"
    by (simp add: sl_reply_total_def variableLabels_NewDesc)
qed

lemma scenarioMap_others:
  "\<forall>k \<in> dom (scenarioMap(''usrloc.location_users'' \<mapsto> ''17'')).
      k \<notin> {''core.rcv_requests'', ''sl.200_replies'', ''script.custom_total''}
      \<longrightarrow> k \<notin> fst ` set (statCatalog cl) \<and> \<not> HasPrefix k ''script.''"
  by (simp add: scenarioMap_def location_users_not_in_catalog HasPrefix_def)

lemma scenarioMap_only:
  "\<forall>k \<in> dom scenarioMap.
      k \<notin> {''core.rcv_requests'', ''sl.200_replies'', ''script.custom_total''}
      \<longrightarrow> k \<notin> fst ` set (statCatalog cl) \<and> \<not> HasPrefix k ''script.''"
  by (simp add: scenarioMap_def)

text \<open>
  Claim C3, as amended. Let the constant labels be valid and none of them be named
  \<^verbatim>\<open>method\<close> or \<^verbatim>\<open>code\<close>. On a flat map that holds the three keys of the scenario and
  otherwise only keys that are neither in the catalog nor prefixed with \<^verbatim>\<open>script.\<close>,
  the two translators send exactly three counter samples, whatever the order in which
  the keys are met: \<^verbatim>\<open>kamailio_core_request_total\<close> with method rcv and value 42,
  \<^verbatim>\<open>kamailio_sl_reply_total\<close> with code 200 and value 10, and \<^verbatim>\<open>kamailio_custom_total\<close>
  with value 5.
\<close>

theorem scenario_three_counters:
  fixes ParseFloat :: "string \<Rightarrow> real option"
  assumes pf: "ParseFloat ''42'' = Some 42" "ParseFloat ''10'' = Some 10" "ParseFloat ''5'' = Some 5"
    and present: "data ''core.rcv_requests'' = Some ''42''" "data ''sl.200_replies'' = Some ''10''"
      "data ''script.custom_total'' = Some ''5''"
    and others: "\<forall>k \<in> dom data.
        k \<notin> {''core.rcv_requests'', ''sl.200_replies'', ''script.custom_total''}
        \<longrightarrow> k \<notin> fst ` set (statCatalog cl) \<and> \<not> HasPrefix k ''script.''"
    and order: "iterationOrder data ks"
    and labels: "validConstLabels cl" "set [''method'', ''code''] \<inter> fst ` set cl = {}"
  shows "produceMetrics ParseFloat cl data
         @ convertScriptedMetrics ParseFloat unicodeLower cl data ks =
           [\<lparr>desc = NewDesc ''kamailio_core_request_total'' ''Request counters'' [''method''] cl,
              valType = CounterValue, val = 42, labelValues = [''rcv'']\<rparr>,
            \<lparr>desc = NewDesc ''kamailio_sl_reply_total'' ''Stateless replies by code'' [''code''] cl,
              valType = CounterValue, val = 10, labelValues = [''200'']\<rparr>,
            \<lparr>desc = NewDesc ''kamailio_custom_total'' ''Scripted metric custom_total'' [] cl,
              valType = CounterValue, val = 5, labelValues = []\<rparr>]"
proof -
  note known = known_samples
    [where ParseFloat = ParseFloat and data = data and cl = cl,
     OF labels present(1) pf(1) present(2) pf(2)]
  note scripted = custom_total_sample
    [where ParseFloat = ParseFloat and data = data and cl = cl and unicodeLower = unicodeLower,
     OF present(3) pf(3) labels(1)]
  show ?thesis
    by (simp only: produceMetrics_scenario [OF others]
          convertScriptedMetrics_scenario [OF present(3) others order] known scripted
          append_Cons append_Nil)
qed

theorem scenario_three_counters_witness:
  "produceMetrics digitsFloat siteLabels (scenarioMap(''usrloc.location_users'' \<mapsto> ''17''))
   @ convertScriptedMetrics digitsFloat noUnicode siteLabels
       (scenarioMap(''usrloc.location_users'' \<mapsto> ''17''))
       (''usrloc.location_users'' # scenarioKeys) =
     [\<lparr>desc = NewDesc ''kamailio_core_request_total'' ''Request counters'' [''method''] siteLabels,
        valType = CounterValue, val = 42, labelValues = [''rcv'']\<rparr>,
      \<lparr>desc = NewDesc ''kamailio_sl_reply_total'' ''Stateless replies by code'' [''code''] siteLabels,
        valType = CounterValue, val = 10, labelValues = [''200'']\<rparr>,
      \<lparr>desc = NewDesc ''kamailio_custom_total'' ''Scripted metric custom_total'' [] siteLabels,
        valType = CounterValue, val = 5, labelValues = []\<rparr>]"
proof -
  let ?data = "scenarioMap(''usrloc.location_users'' \<mapsto> ''17'')"
  have present: "?data ''core.rcv_requests'' = Some ''42''" "?data ''sl.200_replies'' = Some ''10''"
    "?data ''script.custom_total'' = Some ''5''"
    by (simp_all add: scenarioMap_def)
  have order: "iterationOrder ?data (''usrloc.location_users'' # scenarioKeys)"
    by (auto simp: iterationOrder_def scenarioMap_def scenarioKeys_def)
  have names: "set [''method'', ''code''] \<inter> fst ` set siteLabels = {}"
    by (simp add: site_label_names)
  show ?thesis
    by (rule scenario_three_counters
          [where ParseFloat = digitsFloat and data = ?data and cl = siteLabels,
           OF digitsFloat_examples(1,2,3) present scenarioMap_others order
              validConstLabels_siteLabels names])
qed

text \<open>
  Claim C3 as stated fails on its first sample: the catalog maps the stat key
  \<^verbatim>\<open>core.rcv_requests\<close> to the descriptor \<^verbatim>\<open>kamailio_core_request_total\<close>, and no sample
  of the scenario bears the name \<^verbatim>\<open>kamailio_core_rcv_request_total\<close>. It also fails,
  whatever the name, under a constant label named \<^verbatim>\<open>method\<close>: the descriptor of the
  first sample then carries an error and only two samples are sent.
\<close>

theorem scenario_first_sample_counterexample:
  "scenarioMap ''core.rcv_requests'' = Some ''42''
   \<and> \<lparr>desc = NewDesc ''kamailio_core_rcv_request_total'' ''Received requests by method''
                [''method''] siteLabels,
        valType = CounterValue, val = 42, labelValues = [''rcv'']\<rparr>
       \<notin> set (produceMetrics digitsFloat siteLabels scenarioMap
                @ convertScriptedMetrics digitsFloat noUnicode siteLabels scenarioMap scenarioKeys)
   \<and> ''kamailio_core_rcv_request_total''
       \<notin> set (map (\<lambda>m. fqName (desc m))
                  (produceMetrics digitsFloat siteLabels scenarioMap
                   @ convertScriptedMetrics digitsFloat noUnicode siteLabels scenarioMap
                       scenarioKeys))
   \<and> produceMetrics digitsFloat [(''method'', ''x'')] scenarioMap
       @ convertScriptedMetrics digitsFloat noUnicode [(''method'', ''x'')] scenarioMap scenarioKeys
     = [\<lparr>desc = NewDesc ''kamailio_sl_reply_total'' ''Stateless replies by code'' [''code'']
                  [(''method'', ''x'')],
          valType = CounterValue, val = 10, labelValues = [''200'']\<rparr>,
        \<lparr>desc = NewDesc ''kamailio_custom_total'' ''Scripted metric custom_total'' []
                  [(''method'', ''x'')],
          valType = CounterValue, val = 5, labelValues = []\<rparr>]"
proof -
  have present: "scenarioMap ''core.rcv_requests'' = Some ''42''"
    "scenarioMap ''sl.200_replies'' = Some ''10''" "scenarioMap ''script.custom_total'' = Some ''5''"
    by (simp_all add: scenarioMap_def)
  have order: "iterationOrder scenarioMap scenarioKeys"
    by (auto simp: iterationOrder_def scenarioMap_def scenarioKeys_def)
  have names: "set [''method'', ''code''] \<inter> fst ` set siteLabels = {}"
    by (simp add: site_label_names)
  note rows = produceMetrics_scenario [OF scenarioMap_only]
  note key = convertScriptedMetrics_scenario [OF present(3) scenarioMap_only order]
  note known = known_samples
    [where ParseFloat = digitsFloat and data = scenarioMap and cl = siteLabels,
     OF validConstLabels_siteLabels names present(1) digitsFloat_examples(1)
        present(2) digitsFloat_examples(2)]
  note scripted = custom_total_sample
    [where ParseFloat = digitsFloat and data = scenarioMap and cl = siteLabels
       and unicodeLower = noUnicode,
     OF present(3) digitsFloat_examples(3) validConstLabels_siteLabels]
  have site: "produceMetrics digitsFloat siteLabels scenarioMap
       @ convertScriptedMetrics digitsFloat noUnicode siteLabels scenarioMap scenarioKeys =
     [\<lparr>desc = NewDesc ''kamailio_core_request_total'' ''Request counters'' [''method''] siteLabels,
        valType = CounterValue, val = 42, labelValues = [''rcv'']\<rparr>,
      \<lparr>desc = NewDesc ''kamailio_sl_reply_total'' ''Stateless replies by code'' [''code''] siteLabels,
        valType = CounterValue, val = 10, labelValues = [''200'']\<rparr>,
      \<lparr>desc = NewDesc ''kamailio_custom_total'' ''Scripted metric custom_total'' [] siteLabels,
        valType = CounterValue, val = 5, labelValues = []\<rparr>]"
    by (simp only: rows key known scripted append_Cons append_Nil)
  have valid: "validConstLabels [(''method'', ''x'')]"
    by (simp add: validConstLabels_def checkLabelName_def nameByte_def HasPrefix_def)
  have clash: "descErr (core_request_total [(''method'', ''x'')]) \<noteq> None"
    by (simp add: core_request_total_def descErr_NewDesc)
  have fine: "descErr (sl_reply_total [(''method'', ''x'')]) = None"
    unfolding sl_reply_total_def using valid
    by (intro descErr_NewDesc_None)
       (simp_all add: IsValidMetricName_def checkLabelName_def nameByte_def HasPrefix_def)
  from fine present(2) digitsFloat_examples(2)
    convertStatToMetric_emits [of scenarioMap "''sl.200_replies''" "''10''" digitsFloat 10
      "sl_reply_total [(''method'', ''x'')]" "''200''" CounterValue]
  have second: "convertStatToMetric digitsFloat scenarioMap ''sl.200_replies'' ''200''
      (sl_reply_total [(''method'', ''x'')]) CounterValue =
      [\<lparr>desc = NewDesc ''kamailio_sl_reply_total'' ''Stateless replies by code'' [''code'']
                  [(''method'', ''x'')],
          valType = CounterValue, val = 10, labelValues = [''200'']\<rparr>]"
    by (simp add: sl_reply_total_def variableLabels_NewDesc)
  note third = custom_total_sample
    [where ParseFloat = digitsFloat and data = scenarioMap and cl = "[(''method'', ''x'')]"
       and unicodeLower = noUnicode,
     OF present(3) digitsFloat_examples(3) valid]
  have clashing: "produceMetrics digitsFloat [(''method'', ''x'')] scenarioMap
       @ convertScriptedMetrics digitsFloat noUnicode [(''method'', ''x'')] scenarioMap scenarioKeys
     = [\<lparr>desc = NewDesc ''kamailio_sl_reply_total'' ''Stateless replies by code'' [''code'']
                  [(''method'', ''x'')],
          valType = CounterValue, val = 10, labelValues = [''200'']\<rparr>,
        \<lparr>desc = NewDesc ''kamailio_custom_total'' ''Scripted metric custom_total'' []
                  [(''method'', ''x'')],
          valType = CounterValue, val = 5, labelValues = []\<rparr>]"
    by (simp only: rows key convertStatToMetric_descErr [OF clash] second third
          append_Cons append_Nil)
  have "\<lparr>desc = NewDesc ''kamailio_core_rcv_request_total'' ''Received requests by method''
                [''method''] siteLabels,
        valType = CounterValue, val = 42, labelValues = [''rcv'']\<rparr>
       \<notin> set (produceMetrics digitsFloat siteLabels scenarioMap
                @ convertScriptedMetrics digitsFloat noUnicode siteLabels scenarioMap scenarioKeys)"
    unfolding site by (simp add: NewDesc_def Let_def)
  moreover have "''kamailio_core_rcv_request_total''
       \<notin> set (map (\<lambda>m. fqName (desc m))
                  (produceMetrics digitsFloat siteLabels scenarioMap
                   @ convertScriptedMetrics digitsFloat noUnicode siteLabels scenarioMap
                       scenarioKeys))"
    unfolding site by (simp add: fqName_NewDesc)
  ultimately show ?thesis
    using present(1) clashing by blast
qed

end
